theory Spec2Isabelle
  imports Complex_Main "HOL-Library.Sublist"
begin

section \<open>The SQL notebook: database set-up (code cell 38240428)\<close>

text \<open>
  The first code cell of the SQL notebook opens \<^verbatim>\<open>sqlite:///example.db\<close>, switches
  foreign keys on, creates the two tables with \<^verbatim>\<open>CREATE TABLE IF NOT EXISTS\<close>, inserts
  two customers and three orders with explicit \<^verbatim>\<open>id\<close> values and commits.

  A row of \<^verbatim>\<open>customers (id, name, email)\<close> and of
  \<^verbatim>\<open>orders (id, customer_id, product, amount)\<close> is a record. The column
  \<^verbatim>\<open>amount NUMERIC(10, 2)\<close> is a decimal with two fractional digits; it is modelled
  as an exact rational, so \<^verbatim>\<open>999.99\<close> is \<open>99999 / 100\<close>. Amounts are stored and
  compared for equality only; nothing below computes with them.

  The two query cells c5811f68 and 1361de2c hand a sentence to \<^verbatim>\<open>agent.run\<close> and
  print the answer. The SQL that is run and the answer are written by a language model
  behind that call, outside the notebook; the output stored in the cells records one run.
  Neither is a function of the notebook's code, and neither is modelled.
\<close>

record customers_row =
  customers_id :: int
  customers_name :: string
  customers_email :: string

record orders_row =
  orders_id :: int
  orders_customer_id :: int
  orders_product :: string
  orders_amount :: rat

text \<open>The database file: each table is absent (\<open>None\<close>) or holds its rows in insertion order.\<close>

record database =
  customers :: "customers_row list option"
  orders :: "orders_row list option"

definition empty_database :: database where
  "empty_database = \<lparr>customers = None, orders = None\<rparr>"

text \<open>
  A connection holds the file, the open transaction (the uncommitted working copy, if
  any) and the connection-local foreign-key switch.
\<close>

record connection =
  db_file :: database
  txn :: "database option"
  foreign_keys :: bool

datatype sql_error =
    UniqueViolation string
  | ForeignKeyViolation
  | NoSuchTable string

datatype stmt =
    PragmaForeignKeysOn
  | CreateCustomersIfNotExists
  | CreateOrdersIfNotExists
  | InsertCustomers customers_row
  | InsertOrders orders_row
  | Commit

definition connect :: "database \<Rightarrow> connection" where
  "connect d = \<lparr>db_file = d, txn = None, foreign_keys = False\<rparr>"

definition current :: "connection \<Rightarrow> database" where
  "current c = (case txn c of Some d \<Rightarrow> d | None \<Rightarrow> db_file c)"

text \<open>A schema statement outside a transaction takes effect on the file at once.\<close>

definition ddl :: "database \<Rightarrow> connection \<Rightarrow> connection" where
  "ddl d c = (case txn c of None \<Rightarrow> c\<lparr>db_file := d\<rparr> | Some _ \<Rightarrow> c\<lparr>txn := Some d\<rparr>)"

text \<open>An insert opens a transaction if none is open and changes the working copy only.\<close>

definition dml :: "database \<Rightarrow> connection \<Rightarrow> connection" where
  "dml d c = c\<lparr>txn := Some d\<rparr>"

definition insert_customers :: "customers_row \<Rightarrow> connection \<Rightarrow> sql_error + connection" where
  "insert_customers r c =
     (case customers (current c) of
        None \<Rightarrow> Inl (NoSuchTable ''customers'')
      | Some rows \<Rightarrow>
          if customers_id r \<in> set (map customers_id rows)
          then Inl (UniqueViolation ''customers.id'')
          else Inr (dml ((current c)\<lparr>customers := Some (rows @ [r])\<rparr>) c))"

definition insert_orders :: "orders_row \<Rightarrow> connection \<Rightarrow> sql_error + connection" where
  "insert_orders r c =
     (case orders (current c) of
        None \<Rightarrow> Inl (NoSuchTable ''orders'')
      | Some rows \<Rightarrow>
          if orders_id r \<in> set (map orders_id rows)
          then Inl (UniqueViolation ''orders.id'')
          else if foreign_keys c then
            (case customers (current c) of
               None \<Rightarrow> Inl (NoSuchTable ''customers'')
             | Some cs \<Rightarrow>
                 if orders_customer_id r \<in> set (map customers_id cs)
                 then Inr (dml ((current c)\<lparr>orders := Some (rows @ [r])\<rparr>) c)
                 else Inl ForeignKeyViolation)
          else Inr (dml ((current c)\<lparr>orders := Some (rows @ [r])\<rparr>) c))"

fun execute :: "stmt \<Rightarrow> connection \<Rightarrow> sql_error + connection" where
  "execute PragmaForeignKeysOn c =
     Inr (case txn c of None \<Rightarrow> c\<lparr>foreign_keys := True\<rparr> | Some _ \<Rightarrow> c)"
| "execute CreateCustomersIfNotExists c =
     Inr (case customers (current c) of
            Some _ \<Rightarrow> c
          | None \<Rightarrow> ddl ((current c)\<lparr>customers := Some []\<rparr>) c)"
| "execute CreateOrdersIfNotExists c =
     Inr (case orders (current c) of
            Some _ \<Rightarrow> c
          | None \<Rightarrow> ddl ((current c)\<lparr>orders := Some []\<rparr>) c)"
| "execute (InsertCustomers r) c = insert_customers r c"
| "execute (InsertOrders r) c = insert_orders r c"
| "execute Commit c =
     Inr (case txn c of None \<Rightarrow> c | Some d \<Rightarrow> c\<lparr>db_file := d, txn := None\<rparr>)"

text \<open>
  The statements of the cell run in order; the first one that raises ends the
  \<^verbatim>\<open>with\<close> block, with the connection as it was before that statement.
\<close>

fun run_script :: "stmt list \<Rightarrow> connection \<Rightarrow> sql_error option \<times> connection" where
  "run_script [] c = (None, c)"
| "run_script (s # ss) c =
     (case execute s c of
        Inl e \<Rightarrow> (Some e, c)
      | Inr c' \<Rightarrow> run_script ss c')"

text \<open>Leaving the \<^verbatim>\<open>with\<close> block closes the connection: what was not committed is lost.\<close>

definition close :: "connection \<Rightarrow> database" where
  "close c = db_file c"

definition setup_script :: "stmt list" where
  "setup_script =
    [PragmaForeignKeysOn,
     CreateCustomersIfNotExists,
     CreateOrdersIfNotExists,
     InsertCustomers \<lparr>customers_id = 1, customers_name = ''John Doe'',
                      customers_email = ''john@example.com''\<rparr>,
     InsertCustomers \<lparr>customers_id = 2, customers_name = ''Jane Smith'',
                      customers_email = ''jane@example.com''\<rparr>,
     InsertOrders \<lparr>orders_id = 1, orders_customer_id = 1, orders_product = ''Laptop'',
                   orders_amount = 99999 / 100\<rparr>,
     InsertOrders \<lparr>orders_id = 2, orders_customer_id = 1, orders_product = ''Mouse'',
                   orders_amount = 1999 / 100\<rparr>,
     InsertOrders \<lparr>orders_id = 3, orders_customer_id = 2, orders_product = ''Keyboard'',
                   orders_amount = 4999 / 100\<rparr>,
     Commit]"

text \<open>
  One execution of the cell against a database file: the exception it ends with, if any,
  and the file it leaves behind.
\<close>

definition setup_database :: "database \<Rightarrow> sql_error option \<times> database" where
  "setup_database d = (case run_script setup_script (connect d) of (r, c) \<Rightarrow> (r, close c))"

definition fixture :: database where
  "fixture = snd (setup_database empty_database)"

section \<open>The knowledge-base notebook (cells 8c02f089 and 021d96a0)\<close>

text \<open>
  The second notebook builds an agent over a PDF knowledge base and a web search tool,
  loads the knowledge base, and asks two questions; the second question is wrapped in
  \<^verbatim>\<open>try\<close>/\<^verbatim>\<open>except Exception\<close>, whose handler builds a second agent with
  \<^verbatim>\<open>markdown=False\<close> and asks again.

  Objects that the notebook shares or rebuilds live in a store and are named by their
  address, so that "the same object" and "an equal object" are different statements. An
  \<^verbatim>\<open>Agent\<close> is kept as the record of its constructor arguments, its model, knowledge
  base and tools by address.

  What is modelled is a run in which the set-up cell ea8e8125 (the imports,
  \<^verbatim>\<open>load_dotenv\<close> and the assignment to \<^verbatim>\<open>os.environ\<close>, which raises
  \<^verbatim>\<open>TypeError\<close> when \<^verbatim>\<open>OPENAI_API_KEY\<close> is unset) and every constructor have
  returned: a constructor only allocates here, and \<^verbatim>\<open>print\<close> only writes. A run
  that ends in the set-up cell or inside a constructor never reaches the calls below,
  and no statement of this theory is about such a run. The calls that can raise in the
  model are the ones the notebook makes on the objects it has built:
  \<^verbatim>\<open>knowledge.load()\<close> and \<^verbatim>\<open>print_response\<close>.
\<close>

type_synonym ref = nat

datatype SearchType = vector | keyword | hybrid

datatype obj =
    OpenAIChat string
  | OpenAIEmbedder string
  | LanceDb string string SearchType ref
  | PDFUrlKnowledgeBase "string list" ref
  | DuckDuckGoTools

record Agent =
  model :: ref
  description :: string
  instructions :: "string list"
  knowledge :: "ref option"
  tools :: "ref list"
  show_tool_calls :: bool
  markdown :: bool

text \<open>
  What a call into the library can raise. \<^verbatim>\<open>except Exception\<close> catches every exception
  derived from \<^verbatim>\<open>Exception\<close>; \<^verbatim>\<open>KeyboardInterrupt\<close> derives from
  \<^verbatim>\<open>BaseException\<close> only and passes through.
\<close>

datatype py_exception = Exception string | NameError string | KeyboardInterrupt

fun is_Exception :: "py_exception \<Rightarrow> bool" where
  "is_Exception (Exception _) = True"
| "is_Exception (NameError _) = True"
| "is_Exception KeyboardInterrupt = False"

text \<open>
  The calls the cell makes, in the order it makes them: \<^verbatim>\<open>knowledge.load()\<close> on a
  knowledge base, \<^verbatim>\<open>print_response(query, stream=...)\<close> on an agent, and
  \<^verbatim>\<open>print\<close>.
\<close>

datatype call =
    Load ref
  | PrintResponse Agent string bool
  | Print string

text \<open>
  The library is a parameter: given the store, the calls made so far and the call at hand,
  it says whether the call returns (\<open>None\<close>) or raises. Nothing is assumed about it.
\<close>

type_synonym framework = "obj list \<Rightarrow> call list \<Rightarrow> call \<Rightarrow> py_exception option"

text \<open>The kernel's state: the store, the two global variables and the calls made.\<close>

record notebook =
  store :: "obj list"
  agent :: "Agent option"
  temp_agent :: "Agent option"
  trace :: "call list"

definition fresh_kernel :: notebook where
  "fresh_kernel = \<lparr>store = [], agent = None, temp_agent = None, trace = []\<rparr>"

definition new :: "obj \<Rightarrow> notebook \<Rightarrow> ref \<times> notebook" where
  "new x k = (length (store k), k\<lparr>store := store k @ [x]\<rparr>)"

definition lookup :: "obj list \<Rightarrow> ref \<Rightarrow> obj option" where
  "lookup h r = (if r < length h then Some (h ! r) else None)"

definition invoke :: "framework \<Rightarrow> call \<Rightarrow> notebook \<Rightarrow> py_exception option \<times> notebook" where
  "invoke fw c k = (fw (store k) (trace k) c, k\<lparr>trace := trace k @ [c]\<rparr>)"

text \<open>
  Cell 8c02f089, for constructors that return. Python evaluates the arguments left to
  right and an inner call before the call it is an argument of: the chat model, the
  embedder, the vector database, the knowledge base, the search tool, then the agent.
\<close>

definition cell_8c02f089 :: "notebook \<Rightarrow> notebook" where
  "cell_8c02f089 k =
     (case new (OpenAIChat ''gpt-4o-mini'') k of (m, k1) \<Rightarrow>
      case new (OpenAIEmbedder ''text-embedding-3-small'') k1 of (e, k2) \<Rightarrow>
      case new (LanceDb ''tmp/lancedb'' ''recipes'' hybrid e) k2 of (v, k3) \<Rightarrow>
      case new (PDFUrlKnowledgeBase
                  [''https://agno-public.s3.amazonaws.com/recipes/ThaiRecipes.pdf''] v) k3
      of (kb, k4) \<Rightarrow>
      case new DuckDuckGoTools k4 of (t, k5) \<Rightarrow>
        k5\<lparr>agent := Some
          \<lparr>model = m,
           description = ''You are a Thai cuisine expert!'',
           instructions =
             [''Search your knowledge base for Thai recipes.'',
              ''If the question is better suited for the web, search the web to fill in gaps.'',
              ''Prefer the information in your knowledge base over the web results.''],
           knowledge = Some kb,
           tools = [t],
           show_tool_calls = True,
           markdown = True\<rparr>\<rparr>)"

text \<open>Cell 021d96a0, statement by statement. A statement that raises ends the cell.\<close>

definition and_then ::
  "py_exception option \<times> notebook \<Rightarrow> (notebook \<Rightarrow> py_exception option \<times> notebook) \<Rightarrow>
   py_exception option \<times> notebook" where
  "and_then r f = (case r of (Some e, k) \<Rightarrow> (Some e, k) | (None, k) \<Rightarrow> f k)"

text \<open>\<^verbatim>\<open>if agent.knowledge is not None: agent.knowledge.load()\<close>\<close>

definition load_knowledge :: "framework \<Rightarrow> notebook \<Rightarrow> py_exception option \<times> notebook" where
  "load_knowledge fw k =
     (case agent k of
        None \<Rightarrow> (Some (NameError ''agent''), k)
      | Some a \<Rightarrow>
          (case knowledge a of
             None \<Rightarrow> (None, k)
           | Some kb \<Rightarrow> invoke fw (Load kb) k))"

text \<open>The first query, outside any \<^verbatim>\<open>try\<close>.\<close>

definition first_query :: "framework \<Rightarrow> notebook \<Rightarrow> py_exception option \<times> notebook" where
  "first_query fw k =
     (case agent k of
        None \<Rightarrow> (Some (NameError ''agent''), k)
      | Some a \<Rightarrow>
          invoke fw (PrintResponse a
            ''How do I make chicken and galangal in coconut milk soup'' True) k)"

definition retry_notice :: string where
  "retry_notice =
     [CHR 0x0A] @ ''Encountered an error with markdown formatting. Retrying without markdown...''
       @ [CHR 0x0A]"

text \<open>
  The body of the handler: the notice, a new chat model, \<^verbatim>\<open>agent.knowledge\<close> read
  from the first agent, a new search tool, the new agent bound to \<^verbatim>\<open>temp_agent\<close>, and
  the query again, outside any \<^verbatim>\<open>try\<close>.
\<close>

definition retry_without_markdown ::
  "framework \<Rightarrow> notebook \<Rightarrow> py_exception option \<times> notebook" where
  "retry_without_markdown fw k =
     (case new (OpenAIChat ''gpt-4o-mini'') (k\<lparr>trace := trace k @ [Print retry_notice]\<rparr>) of
        (m, k1) \<Rightarrow>
     (case agent k1 of
        None \<Rightarrow> (Some (NameError ''agent''), k1)
      | Some a \<Rightarrow>
     (case new DuckDuckGoTools k1 of
        (t, k2) \<Rightarrow>
          let ta = \<lparr>model = m,
                    description = ''You are a Thai cuisine expert!'',
                    instructions =
                      [''Search your knowledge base for Thai recipes.'',
                       ''If the question is better suited for the web, search the web to fill in gaps.'',
                       ''Prefer the information in your knowledge base over the web results.''],
                    knowledge = knowledge a,
                    tools = [t],
                    show_tool_calls = True,
                    markdown = False\<rparr>
          in invoke fw (PrintResponse ta ''What is the history of Thai curry?'' True)
               (k2\<lparr>temp_agent := Some ta\<rparr>))))"

text \<open>The second query with its handler.\<close>

definition second_query :: "framework \<Rightarrow> notebook \<Rightarrow> py_exception option \<times> notebook" where
  "second_query fw k =
     (case agent k of
        None \<Rightarrow> (Some (NameError ''agent''), k)
      | Some a \<Rightarrow>
          (case invoke fw (PrintResponse a ''What is the history of Thai curry?'' True) k of
             (None, k1) \<Rightarrow> (None, k1)
           | (Some e, k1) \<Rightarrow>
               if is_Exception e then retry_without_markdown fw k1 else (Some e, k1)))"

definition cell_021d96a0 :: "framework \<Rightarrow> notebook \<Rightarrow> py_exception option \<times> notebook" where
  "cell_021d96a0 fw k =
     and_then (and_then (load_knowledge fw k) (first_query fw)) (second_query fw)"

text \<open>
  Cells 8c02f089 and 021d96a0 run in this order on a fresh kernel, after a set-up cell
  that returned: the exception cell 021d96a0 ends with, if any, and the kernel it leaves.
\<close>

definition run_notebook :: "framework \<Rightarrow> py_exception option \<times> notebook" where
  "run_notebook fw = cell_021d96a0 fw (cell_8c02f089 fresh_kernel)"

fun is_Load :: "call \<Rightarrow> bool" where
  "is_Load (Load _) = True"
| "is_Load _ = False"

text \<open>
  Three behaviours of the library, used as concrete inputs below: one where only
  markdown rendering of the second question breaks, one where the second question cannot
  be answered with or without markdown, and one where no question can be answered.
\<close>

definition markdown_breaks :: framework where
  "markdown_breaks h tr c =
     (case c of
        PrintResponse a q s \<Rightarrow>
          if markdown a \<and> q = ''What is the history of Thai curry?''
          then Some (Exception ''OutputFormatError'') else None
      | _ \<Rightarrow> None)"

definition curry_unanswerable :: framework where
  "curry_unanswerable h tr c =
     (case c of
        PrintResponse a q s \<Rightarrow>
          if q = ''What is the history of Thai curry?''
          then Some (Exception
                 (if markdown a then ''OutputFormatError'' else ''UpstreamUnavailable''))
          else None
      | _ \<Rightarrow> None)"

definition model_unreachable :: framework where
  "model_unreachable h tr c =
     (case c of
        PrintResponse a q s \<Rightarrow> Some (Exception ''UpstreamUnavailable'')
      | _ \<Rightarrow> None)"

section \<open>The agent loop the specification describes\<close>

text \<open>
  The loop that turns a request into tool calls and a final answer is not code of the
  notebooks: they call it through \<^verbatim>\<open>agent.run\<close> and \<^verbatim>\<open>agent.print_response\<close>. Every
  definition of this section is therefore written from the specification's sections 3 to
  7, and says so.
\<close>

text \<open>Modelled from the spec: the error taxonomy of section 7 and the design notes
  (the controller and its error kinds are missing from the repository).\<close>

datatype ErrorKind =
    InvalidArguments
  | UnknownTool
  | ToolExecutionFailed
  | UpstreamUnavailable
  | StepBudgetExceeded
  | OutputFormatError
  | MissingCredential

text \<open>Modelled from the spec: the Run State of section 3 (missing from the repository).\<close>

datatype RunState = pending | awaiting_tool_result | completed | failed

text \<open>Modelled from the spec: a tool's declared input schema, "named parameters with
  types" (section 3, Tool Descriptor; missing from the repository).\<close>

datatype ParamType = TText | TNumber | TFlag

text \<open>Modelled from the spec: an argument value that a schema types (missing from the
  repository).\<close>

datatype ArgValue = Text string | Number int | Flag bool

text \<open>Modelled from the spec: the type a schema asks of a value (missing from the
  repository).\<close>

fun type_of :: "ArgValue \<Rightarrow> ParamType" where
  "type_of (Text _) = TText"
| "type_of (Number _) = TNumber"
| "type_of (Flag _) = TFlag"

type_synonym Arguments = "(string \<times> ArgValue) list"

type_synonym Schema = "(string \<times> ParamType) list"

text \<open>Modelled from the spec: the concrete tool families of section 4.2, "SQL,
  retrieval, web search" (missing from the repository).\<close>

datatype ToolFamily = SQL | Retrieval | WebSearch

text \<open>Modelled from the spec: the Tool Descriptor of section 3: a name, a description
  of purpose, a declared input schema and a callable capability that returns a result or
  a failure with a described reason. The capability is given the number of the attempt,
  since a failed execution is tried once more (section 7); it sees its own arguments and
  nothing else (section 5). Missing from the repository.\<close>

record ToolDescriptor =
  name :: string
  purpose :: string
  family :: ToolFamily
  input_schema :: Schema
  capability :: "nat \<Rightarrow> Arguments \<Rightarrow> string + string"

text \<open>Modelled from the spec: one proposed tool call, \<^verbatim>\<open>{tool_name, arguments}\<close>
  (section 6; missing from the repository).\<close>

record Invocation =
  tool_name :: string
  arguments :: Arguments

text \<open>Modelled from the spec: what \<^verbatim>\<open>dispatch\<close> returns, \<^verbatim>\<open>ToolResult | ToolError\<close>
  (section 4.2; missing from the repository).\<close>

datatype ToolOutcome = ToolResult string | ToolError ErrorKind string

text \<open>Modelled from the spec: the Turn of section 3: a model proposal (a final answer,
  or tool invocations) or a tool-execution result fed back to the model (missing from the
  repository).\<close>

datatype Turn =
    FinalAnswerTurn string
  | ProposalTurn "Invocation list"
  | ToolResultTurn Invocation ToolOutcome

text \<open>Modelled from the spec: the response of the text-generation service,
  \<^verbatim>\<open>{type: final_answer, text}\<close> or \<^verbatim>\<open>{type: tool_calls, calls}\<close> (section 6; missing
  from the repository).\<close>

datatype Response = final_answer string | tool_calls "Invocation list"

text \<open>Modelled from the spec: the text-generation service contract of section 6: the
  request is the instruction, the transcript and the tool schemas; \<open>None\<close> is a service
  that is unreachable or errors. The service is a parameter.\<close>

type_synonym Service =
  "string \<Rightarrow> Turn list \<Rightarrow> (string \<times> Schema) list \<Rightarrow> Response option"

text \<open>Modelled from the spec: the Knowledge Index of sections 3 and 4.3, as far as the
  ingestion check sees it: not yet ingested, or ingested and holding its chunks (the index
  is an external store, missing from the repository).\<close>

datatype KnowledgeIndex = NotLoaded | Loaded "string list"

text \<open>Modelled from the spec: a source document, which is unreachable or yields its
  indexable chunks (section 4.3; missing from the repository).\<close>

datatype Document = Unreachable string | Readable "string list"

text \<open>Modelled from the spec: the result of the ingestion check,
  \<^verbatim>\<open>Ready | EmptyIndexWarning\<close> (section 4.3; missing from the repository).\<close>

datatype IndexStatus = Ready | EmptyIndexWarning

text \<open>Modelled from the spec: the Request of section 3: the instruction and the
  configuration (selected tools, knowledge index handle, output-format flag, streaming
  flag). Missing from the repository.\<close>

record Request =
  instruction :: string
  selected_tools :: "ToolDescriptor list"
  knowledge_index :: "KnowledgeIndex option"
  markdown_output :: bool
  streaming :: bool

text \<open>Modelled from the spec: the controller's configuration: the step budget
  \<^verbatim>\<open>max_steps\<close>, the text-generation service, and the time at which each invocation of
  a step completes when they run concurrently (section 5), given the transcript and the
  invocation's position in the proposal. Missing from the repository.\<close>

record Controller =
  max_steps :: nat
  service :: Service
  completion_time :: "Turn list \<Rightarrow> nat \<Rightarrow> nat"

text \<open>Modelled from the spec: the state of one run: the transcript, the Run State, the
  number of steps taken, the invocations awaited and the error kind of a failed run
  (sections 3 and 4.1; missing from the repository).\<close>

record Run =
  transcript :: "Turn list"
  state :: RunState
  step_count :: nat
  in_flight :: "Invocation list"
  failure :: "ErrorKind option"

text \<open>Modelled from the spec: what \<^verbatim>\<open>run\<close> returns, \<^verbatim>\<open>FinalAnswer | Failure\<close>, the
  failure carrying its kind and the transcript so far (section 4.1; missing from the
  repository).\<close>

datatype Outcome = FinalAnswer string | Failure ErrorKind "Turn list"

text \<open>Modelled from the spec: "arguments satisfy the schema" (section 4.1, step 3):
  each declared parameter is given once, by name, with a value of its type. Missing from
  the repository.\<close>

definition satisfies :: "Schema \<Rightarrow> Arguments \<Rightarrow> bool" where
  "satisfies sch args =
     (distinct (map fst args) \<and> length args = length sch \<and>
      list_all (\<lambda>(n, v). map_of sch n = Some (type_of v)) args)"

text \<open>Modelled from the spec: \<^verbatim>\<open>dispatch(name, args)\<close> of section 4.2: an unknown name
  and schema-violating arguments are rejected without invoking the capability; a failed
  execution is tried once more before it surfaces as \<^verbatim>\<open>ToolExecutionFailed\<close> (section 7).
  Missing from the repository.\<close>

definition dispatch :: "ToolDescriptor list \<Rightarrow> string \<Rightarrow> Arguments \<Rightarrow> ToolOutcome" where
  "dispatch reg n args =
     (case find (\<lambda>t. name t = n) reg of
        None \<Rightarrow> ToolError UnknownTool n
      | Some t \<Rightarrow>
          if \<not> satisfies (input_schema t) args then ToolError InvalidArguments n
          else (case capability t 0 args of
                  Inr res \<Rightarrow> ToolResult res
                | Inl _ \<Rightarrow>
                    (case capability t 1 args of
                       Inr res \<Rightarrow> ToolResult res
                     | Inl why \<Rightarrow> ToolError ToolExecutionFailed why)))"

text \<open>Modelled from the spec: the indexable chunks a document yields; an unreachable
  document yields none (section 4.3; missing from the repository).\<close>

definition chunks_of :: "Document \<Rightarrow> string list" where
  "chunks_of d = (case d of Unreachable _ \<Rightarrow> [] | Readable cs \<Rightarrow> cs)"

text \<open>Modelled from the spec: \<^verbatim>\<open>ingest(documents) -> count_added\<close> of the Knowledge
  Index contract (section 6), with the chunks held afterwards. Missing from the
  repository.\<close>

definition ingest :: "string list \<Rightarrow> Document list \<Rightarrow> nat \<times> string list" where
  "ingest held docs =
     (let added = concat (map chunks_of docs) in (length added, held @ added))"

text \<open>Modelled from the spec: the index "reports itself populated" (section 4.3;
  missing from the repository).\<close>

definition populated :: "KnowledgeIndex \<Rightarrow> bool" where
  "populated idx = (case idx of NotLoaded \<Rightarrow> False | Loaded cs \<Rightarrow> cs \<noteq> [])"

text \<open>Modelled from the spec: \<^verbatim>\<open>ensure_loaded(index) -> Ready | EmptyIndexWarning\<close> of
  section 4.3: a one-time, idempotent precondition. An index not yet ingested is ingested once; an
  index that holds no chunk afterwards is marked empty and reported with the warning, not
  with a failure. Missing from the repository.\<close>

definition ensure_loaded ::
  "KnowledgeIndex \<Rightarrow> Document list \<Rightarrow> IndexStatus \<times> KnowledgeIndex" where
  "ensure_loaded idx docs =
     (let idx' = (case idx of
                    NotLoaded \<Rightarrow> Loaded (snd (ingest [] docs))
                  | Loaded cs \<Rightarrow> Loaded cs)
      in (if populated idx' then Ready else EmptyIndexWarning, idx'))"

text \<open>Modelled from the spec: the tools a run may use: the selected tools, without the
  retrieval tools unless the referenced index reports itself populated ("lets the loop
  proceed tool-less-for-retrieval", section 4.3). Missing from the repository.\<close>

definition usable_tools :: "Request \<Rightarrow> ToolDescriptor list" where
  "usable_tools req =
     (case knowledge_index req of
        None \<Rightarrow> filter (\<lambda>t. family t \<noteq> Retrieval) (selected_tools req)
      | Some idx \<Rightarrow>
          if populated idx then selected_tools req
          else filter (\<lambda>t. family t \<noteq> Retrieval) (selected_tools req))"

text \<open>Modelled from the spec: the invocations of one step executed concurrently
  (section 5): \<open>order\<close> lists the positions of the invocations in the order in which
  their executions complete, and each completion delivers the position with the result.
  Missing from the repository.\<close>

definition execute_in ::
  "nat list \<Rightarrow> ToolDescriptor list \<Rightarrow> Invocation list \<Rightarrow> (nat \<times> ToolOutcome) list" where
  "execute_in order reg cs =
     map (\<lambda>i. (i, dispatch reg (tool_name (cs ! i)) (arguments (cs ! i)))) order"

text \<open>Modelled from the spec: the join of section 5: once all invocations of the step
  have resolved, their results become tool-result turns "in invocation order" (section
  4.1, step 4), whatever order they arrived in. Missing from the repository.\<close>

definition collect :: "(nat \<times> ToolOutcome) list \<Rightarrow> Invocation list \<Rightarrow> Turn list" where
  "collect arrived cs =
     map (\<lambda>(i, res). ToolResultTurn (cs ! i) res) (sort_key fst arrived)"

text \<open>Modelled from the spec: the order in which \<open>n\<close> concurrent executions complete,
  given the time each one takes (section 5; missing from the repository).\<close>

definition completion_order :: "(nat \<Rightarrow> nat) \<Rightarrow> nat \<Rightarrow> nat list" where
  "completion_order time n = sort_key time [0..<n]"

text \<open>Modelled from the spec: steps 3 and 4 of the algorithm of section 4.1 for the
  invocations of one proposal (missing from the repository).\<close>

definition resolve ::
  "(nat \<Rightarrow> nat) \<Rightarrow> ToolDescriptor list \<Rightarrow> Invocation list \<Rightarrow> Turn list" where
  "resolve time reg cs =
     collect (execute_in (completion_order time (length cs)) reg cs) cs"

text \<open>Modelled from the spec: a run starts \<^verbatim>\<open>pending\<close> with an empty transcript
  (section 4.1; missing from the repository).\<close>

definition initial :: Run where
  "initial =
     \<lparr>transcript = [], state = pending, step_count = 0, in_flight = [], failure = None\<rparr>"

text \<open>Modelled from the spec: one transition of the controller (section 4.1). A pending
  run within its budget asks the service: no response fails the run with
  \<^verbatim>\<open>UpstreamUnavailable\<close>, a final answer is appended and completes it, a proposal of
  tool calls is appended and awaited. A pending run that has used its budget fails with
  \<^verbatim>\<open>StepBudgetExceeded\<close>. An awaiting run appends the tool-result turns and has taken
  one more step. A completed or failed run stays as it is. Missing from the repository.\<close>

definition step :: "Controller \<Rightarrow> Request \<Rightarrow> Run \<Rightarrow> Run" where
  "step ctl req r =
     (case state r of
        completed \<Rightarrow> r
      | failed \<Rightarrow> r
      | pending \<Rightarrow>
          if step_count r < max_steps ctl then
            (case service ctl (instruction req) (transcript r)
                    (map (\<lambda>t. (name t, input_schema t)) (usable_tools req)) of
               None \<Rightarrow> r\<lparr>state := failed, failure := Some UpstreamUnavailable\<rparr>
             | Some (final_answer ans) \<Rightarrow>
                 r\<lparr>transcript := transcript r @ [FinalAnswerTurn ans], state := completed\<rparr>
             | Some (tool_calls cs) \<Rightarrow>
                 r\<lparr>transcript := transcript r @ [ProposalTurn cs],
                   state := awaiting_tool_result, in_flight := cs\<rparr>)
          else r\<lparr>state := failed, failure := Some StepBudgetExceeded\<rparr>
      | awaiting_tool_result \<Rightarrow>
          r\<lparr>transcript := transcript r @
               resolve (completion_time ctl (transcript r)) (usable_tools req) (in_flight r),
            state := pending, step_count := Suc (step_count r), in_flight := []\<rparr>)"

text \<open>Modelled from the spec: the number of transitions a run can still make; it
  decreases with every transition of a run that is not over (missing from the
  repository).\<close>

definition budget :: "Controller \<Rightarrow> Run \<Rightarrow> nat" where
  "budget ctl r =
     (case state r of
        completed \<Rightarrow> 0
      | failed \<Rightarrow> 0
      | pending \<Rightarrow> 2 * (max_steps ctl - step_count r) + 2
      | awaiting_tool_result \<Rightarrow>
          if step_count r < max_steps ctl then 2 * (max_steps ctl - step_count r) + 1 else 3)"

text \<open>Modelled from the spec: the loop of section 4.1, "while Run State is not
  completed or failed" (missing from the repository).\<close>

function drive :: "Controller \<Rightarrow> Request \<Rightarrow> Run \<Rightarrow> Run" where
  "drive ctl req r =
     (if state r = completed \<or> state r = failed then r else drive ctl req (step ctl req r))"
  by pat_completeness auto
termination
  by (relation "measure (\<lambda>(ctl, req, r). budget ctl r)")
     (auto simp: budget_def step_def split: RunState.splits option.splits Response.splits)

declare drive.simps [simp del]

text \<open>Modelled from the spec: what the caller is handed when the loop returns: the
  text of the final answer of a completed run, or the error kind of a failed run with the
  transcript accumulated so far (section 4.1). \<open>None\<close> stands for a run that has
  nothing to hand over. Missing from the repository.\<close>

definition outcome :: "Run \<Rightarrow> Outcome option" where
  "outcome r =
     (case state r of
        completed \<Rightarrow>
          (case rev (transcript r) of
             FinalAnswerTurn ans # _ \<Rightarrow> Some (FinalAnswer ans)
           | _ \<Rightarrow> None)
      | failed \<Rightarrow> map_option (\<lambda>k. Failure k (transcript r)) (failure r)
      | _ \<Rightarrow> None)"

text \<open>Modelled from the spec: \<^verbatim>\<open>run(request) -> FinalAnswer | Failure\<close> (section 4.1;
  missing from the repository).\<close>

definition run :: "Controller \<Rightarrow> Request \<Rightarrow> Outcome option" where
  "run ctl req = outcome (drive ctl req initial)"

text \<open>Modelled from the spec: the states a run passes through, from the initial one by
  transitions of the controller (missing from the repository).\<close>

inductive reachable :: "Controller \<Rightarrow> Request \<Rightarrow> Run \<Rightarrow> bool" for ctl req where
  reachable_initial: "reachable ctl req initial"
| reachable_step: "reachable ctl req r \<Longrightarrow> reachable ctl req (step ctl req r)"

text \<open>Modelled from the spec: a turn that is a final answer (section 3; missing from
  the repository).\<close>

fun is_final :: "Turn \<Rightarrow> bool" where
  "is_final (FinalAnswerTurn _) = True"
| "is_final _ = False"


subsection \<open>Scripted collaborators\<close>

text \<open>
  A retrieval tool and a web search tool, a request that selects them over an index
  that ingested nothing, and three text-generation services: one that asks for a
  retrieval and a web search and then answers, one that answers at once, and one that
  only ever proposes a tool call.
\<close>

definition search_knowledge_base :: ToolDescriptor where
  "search_knowledge_base =
     \<lparr>name = ''search_knowledge_base'', purpose = ''Search the recipes for a query'',
      family = Retrieval, input_schema = [(''query'', TText)],
      capability = (\<lambda>attempt args. Inr ''ThaiRecipes.pdf, page 1'')\<rparr>"

definition duckduckgo_search :: ToolDescriptor where
  "duckduckgo_search =
     \<lparr>name = ''duckduckgo_search'', purpose = ''Search the web for a query'',
      family = WebSearch, input_schema = [(''query'', TText)],
      capability = (\<lambda>attempt args.
        if attempt = 0 then Inl ''timeout'' else Inr ''Curry reached Thailand from India'')\<rparr>"

definition ask_both :: "Invocation list" where
  "ask_both =
     [\<lparr>tool_name = ''search_knowledge_base'', arguments = [(''query'', Text ''Thai curry'')]\<rparr>,
      \<lparr>tool_name = ''duckduckgo_search'', arguments = [(''query'', Text ''Thai curry'')]\<rparr>]"

definition scripted :: Service where
  "scripted instr ts schemas =
     (if ts = [] then Some (tool_calls ask_both)
      else Some (final_answer ''No knowledge was found; the web says it came from India.''))"

definition insistent :: Service where
  "insistent instr ts schemas = Some (tool_calls ask_both)"

definition thai_request :: Request where
  "thai_request =
     \<lparr>instruction = ''What is the history of Thai curry?'',
      selected_tools = [search_knowledge_base, duckduckgo_search],
      knowledge_index =
        Some (snd (ensure_loaded NotLoaded
          [Unreachable ''https://agno-public.s3.amazonaws.com/recipes/ThaiRecipes.pdf''])),
      markdown_output = True, streaming = True\<rparr>"

definition web_first :: "Turn list \<Rightarrow> nat \<Rightarrow> nat" where
  "web_first ts i = (if i = 0 then 7 else 2)"

definition thai_controller :: Controller where
  "thai_controller = \<lparr>max_steps = 3, service = scripted, completion_time = web_first\<rparr>"

definition stubborn_controller :: Controller where
  "stubborn_controller = \<lparr>max_steps = 3, service = insistent, completion_time = web_first\<rparr>"

text \<open>
  A service that waits for the recipes: it asks for a retrieval until a retrieval has
  delivered a result, and answers then. With it, a controller, and the request of the
  notebook over the index that the given documents leave.
\<close>

definition ask_recipes :: "Invocation list" where
  "ask_recipes =
     [\<lparr>tool_name = ''search_knowledge_base'',
       arguments = [(''query'', Text ''chicken and galangal in coconut milk soup'')]\<rparr>]"

fun retrieved :: "Turn \<Rightarrow> bool" where
  "retrieved (ToolResultTurn c (ToolResult res)) = (tool_name c = ''search_knowledge_base'')"
| "retrieved _ = False"

definition patient :: Service where
  "patient instr ts schemas =
     (if list_ex retrieved ts
      then Some (final_answer ''Simmer the chicken with galangal in coconut milk.'')
      else Some (tool_calls ask_recipes))"

definition patient_controller :: Controller where
  "patient_controller = \<lparr>max_steps = 3, service = patient, completion_time = web_first\<rparr>"

definition request_over :: "Document list \<Rightarrow> Request" where
  "request_over docs =
     \<lparr>instruction = ''How do I make chicken and galangal in coconut milk soup'',
      selected_tools = [search_knowledge_base, duckduckgo_search],
      knowledge_index = Some (snd (ensure_loaded NotLoaded docs)),
      markdown_output = True, streaming = True\<rparr>"

section \<open>Properties of the SQL notebook\<close>

lemma setup_database_success:
  "setup_database d = (None, d') \<Longrightarrow>
     (\<exists>cs. customers d' = Some cs \<and> 1 \<in> set (map customers_id cs)) \<and> orders d' \<noteq> None"
  unfolding setup_database_def setup_script_def
  by (auto simp: connect_def close_def insert_customers_def insert_orders_def current_def
        ddl_def dml_def split: option.splits if_splits sum.splits prod.splits)

lemma setup_database_on_populated:
  "customers d = Some cs \<Longrightarrow> 1 \<in> set (map customers_id cs) \<Longrightarrow> orders d = Some os \<Longrightarrow>
     setup_database d = (Some (UniqueViolation ''customers.id''), d)"
  unfolding setup_database_def setup_script_def
  by (simp add: connect_def close_def insert_customers_def current_def)

lemma create_if_not_exists_noop:
  "customers d = Some cs \<Longrightarrow> orders d = Some os \<Longrightarrow>
     execute CreateCustomersIfNotExists (connect d) = Inr (connect d) \<and>
     execute CreateOrdersIfNotExists (connect d) = Inr (connect d)"
  by (simp add: connect_def current_def)

lemma setup_database_fixture:
  "setup_database empty_database = (None, fixture)"
  by (simp add: fixture_def setup_database_def setup_script_def connect_def close_def
        empty_database_def insert_customers_def insert_orders_def current_def ddl_def dml_def)

lemma fixture_tables:
  "fixture =
     \<lparr>customers =
        Some [\<lparr>customers_id = 1, customers_name = ''John Doe'',
                customers_email = ''john@example.com''\<rparr>,
              \<lparr>customers_id = 2, customers_name = ''Jane Smith'',
                customers_email = ''jane@example.com''\<rparr>],
      orders =
        Some [\<lparr>orders_id = 1, orders_customer_id = 1, orders_product = ''Laptop'',
                orders_amount = 99999 / 100\<rparr>,
              \<lparr>orders_id = 2, orders_customer_id = 1, orders_product = ''Mouse'',
                orders_amount = 1999 / 100\<rparr>,
              \<lparr>orders_id = 3, orders_customer_id = 2, orders_product = ''Keyboard'',
                orders_amount = 4999 / 100\<rparr>]\<rparr>"
  by (simp add: fixture_def setup_database_def setup_script_def connect_def close_def
        empty_database_def insert_customers_def insert_orders_def current_def ddl_def dml_def)

text \<open>
  C10. Running the set-up cell again on the file a successful run left behind is harmless
  for the schema only: both \<^verbatim>\<open>CREATE TABLE IF NOT EXISTS\<close> statements leave the
  connection as it is, and the first insert, which carries the explicit key 1, raises the
  uniqueness violation of \<^verbatim>\<open>customers.id\<close>. The cell ends with that exception and the
  file is the one it started from: nothing is completed and no row is duplicated.
\<close>

theorem setup_database_not_rerunnable:
  assumes "setup_database d = (None, d')"
  shows "execute CreateCustomersIfNotExists (connect d') = Inr (connect d') \<and>
         execute CreateOrdersIfNotExists (connect d') = Inr (connect d') \<and>
         setup_database d' = (Some (UniqueViolation ''customers.id''), d')"
proof -
  from setup_database_success [OF assms] obtain cs os
    where cs: "customers d' = Some cs" "1 \<in> set (map customers_id cs)"
      and os: "orders d' = Some os"
    by auto
  from create_if_not_exists_noop [OF cs(1) os] setup_database_on_populated [OF cs os]
  show ?thesis by simp
qed

theorem setup_database_not_rerunnable_witness:
  "setup_database empty_database = (None, fixture) \<and>
   execute CreateCustomersIfNotExists (connect fixture) = Inr (connect fixture) \<and>
   execute CreateOrdersIfNotExists (connect fixture) = Inr (connect fixture) \<and>
   setup_database fixture = (Some (UniqueViolation ''customers.id''), fixture)"
  using setup_database_not_rerunnable [OF setup_database_fixture] setup_database_fixture
  by simp

section \<open>Properties of the knowledge-base notebook\<close>

lemma cell_8c02f089_fresh:
  "cell_8c02f089 fresh_kernel =
     \<lparr>store = [OpenAIChat ''gpt-4o-mini'', OpenAIEmbedder ''text-embedding-3-small'',
               LanceDb ''tmp/lancedb'' ''recipes'' hybrid 1,
               PDFUrlKnowledgeBase
                 [''https://agno-public.s3.amazonaws.com/recipes/ThaiRecipes.pdf''] 2,
               DuckDuckGoTools],
      agent = Some \<lparr>model = 0,
                description = ''You are a Thai cuisine expert!'',
                instructions =
                  [''Search your knowledge base for Thai recipes.'',
                   ''If the question is better suited for the web, search the web to fill in gaps.'',
                   ''Prefer the information in your knowledge base over the web results.''],
                knowledge = Some 3,
                tools = [4],
                show_tool_calls = True,
                markdown = True\<rparr>,
      temp_agent = None, trace = []\<rparr>"
  by (simp add: cell_8c02f089_def fresh_kernel_def new_def)

lemma second_query_raises:
  assumes "second_query fw k = (Some e, k')" and "agent k = Some a"
  shows "trace k' \<noteq> [] \<and> fw (store k') (butlast (trace k')) (last (trace k')) = Some e"
  using assms
  unfolding second_query_def retry_without_markdown_def invoke_def new_def
  by (auto simp: Let_def butlast_append split: option.splits if_splits)

lemma first_statements:
  assumes "agent k = Some a"
  shows "and_then (load_knowledge fw k) (first_query fw) = (r, k1) \<Longrightarrow>
           agent k1 = Some a \<and> store k1 = store k \<and> temp_agent k1 = temp_agent k \<and>
           trace k1 \<noteq> [] \<and>
           (r = None \<longrightarrow>
              trace k1 = trace k @ map Load (case knowledge a of None \<Rightarrow> [] | Some kb \<Rightarrow> [kb]) @
                [PrintResponse a ''How do I make chicken and galangal in coconut milk soup'' True]) \<and>
           (\<forall>e. r = Some e \<longrightarrow> fw (store k1) (butlast (trace k1)) (last (trace k1)) = Some e)"
  using assms
  unfolding and_then_def load_knowledge_def first_query_def invoke_def
  by (auto simp: butlast_append split: option.splits if_splits)

lemma cell_021d96a0_raises:
  assumes "agent k = Some a" and "cell_021d96a0 fw k = (Some e, k')"
  shows "trace k' \<noteq> [] \<and> fw (store k') (butlast (trace k')) (last (trace k')) = Some e"
proof -
  obtain r k1 where s1: "and_then (load_knowledge fw k) (first_query fw) = (r, k1)"
    by (cases "and_then (load_knowledge fw k) (first_query fw)")
  note f = first_statements [OF assms(1) s1]
  show ?thesis
  proof (cases r)
    case None
    with s1 assms(2) have "second_query fw k1 = (Some e, k')"
      by (simp add: cell_021d96a0_def and_then_def)
    from second_query_raises [OF this] f show ?thesis by simp
  next
    case (Some e')
    with s1 assms(2) have "e' = e" "k' = k1"
      by (simp_all add: cell_021d96a0_def and_then_def)
    with f Some show ?thesis by auto
  qed
qed

lemma second_query_last_call:
  assumes "second_query fw k = (Some e, k')" and "agent k = Some a"
  shows "(temp_agent k' = temp_agent k \<and> \<not> is_Exception e \<and>
            trace k' = trace k @ [PrintResponse a ''What is the history of Thai curry?'' True]) \<or>
         (\<exists>ta. temp_agent k' = Some ta \<and> \<not> markdown ta \<and>
            trace k' = trace k @
              [PrintResponse a ''What is the history of Thai curry?'' True,
               Print retry_notice,
               PrintResponse ta ''What is the history of Thai curry?'' True])"
  using assms
  unfolding second_query_def retry_without_markdown_def invoke_def new_def
  by (auto simp: Let_def split: option.splits if_splits)

lemma first_statements_last_call:
  assumes "agent k = Some a"
  shows "and_then (load_knowledge fw k) (first_query fw) = (Some e, k1) \<Longrightarrow>
           (\<exists>kb. knowledge a = Some kb \<and> trace k1 = trace k @ [Load kb]) \<or>
           trace k1 = trace k @ map Load (case knowledge a of None \<Rightarrow> [] | Some kb \<Rightarrow> [kb]) @
             [PrintResponse a ''How do I make chicken and galangal in coconut milk soup'' True]"
  using assms
  unfolding and_then_def load_knowledge_def first_query_def invoke_def
  by (auto split: option.splits if_splits)

lemma second_query_fallback:
  assumes "agent k = Some a" and "temp_agent k = None"
      and "second_query fw k = (r, k')" and "temp_agent k' = Some ta"
  shows "ta = \<lparr>model = length (store k),
                description = ''You are a Thai cuisine expert!'',
                instructions =
                  [''Search your knowledge base for Thai recipes.'',
                   ''If the question is better suited for the web, search the web to fill in gaps.'',
                   ''Prefer the information in your knowledge base over the web results.''],
                knowledge = knowledge a,
                tools = [Suc (length (store k))],
                show_tool_calls = True,
                markdown = False\<rparr> \<and>
         store k' = store k @ [OpenAIChat ''gpt-4o-mini'', DuckDuckGoTools] \<and>
         agent k' = Some a \<and>
         trace k' = trace k @
           [PrintResponse a ''What is the history of Thai curry?'' True,
            Print retry_notice,
            PrintResponse ta ''What is the history of Thai curry?'' True]"
  using assms
  unfolding second_query_def retry_without_markdown_def invoke_def new_def
  by (auto simp: Let_def split: option.splits if_splits)

lemma cell_021d96a0_fallback:
  assumes "agent k = Some a" and "temp_agent k = None"
      and "cell_021d96a0 fw k = (r, k')" and "temp_agent k' = Some ta"
  shows "ta = \<lparr>model = length (store k),
                description = ''You are a Thai cuisine expert!'',
                instructions =
                  [''Search your knowledge base for Thai recipes.'',
                   ''If the question is better suited for the web, search the web to fill in gaps.'',
                   ''Prefer the information in your knowledge base over the web results.''],
                knowledge = knowledge a,
                tools = [Suc (length (store k))],
                show_tool_calls = True,
                markdown = False\<rparr> \<and>
         store k' = store k @ [OpenAIChat ''gpt-4o-mini'', DuckDuckGoTools] \<and>
         agent k' = Some a \<and>
         trace k' = trace k @ map Load (case knowledge a of None \<Rightarrow> [] | Some kb \<Rightarrow> [kb]) @
           [PrintResponse a ''How do I make chicken and galangal in coconut milk soup'' True,
            PrintResponse a ''What is the history of Thai curry?'' True,
            Print retry_notice,
            PrintResponse ta ''What is the history of Thai curry?'' True]"
proof -
  obtain r1 k1 where s1: "and_then (load_knowledge fw k) (first_query fw) = (r1, k1)"
    by (cases "and_then (load_knowledge fw k) (first_query fw)")
  note f = first_statements [OF assms(1) s1]
  show ?thesis
  proof (cases r1)
    case (Some e')
    with s1 assms(3) have "k' = k1"
      by (simp add: cell_021d96a0_def and_then_def)
    with f assms(2,4) show ?thesis by simp
  next
    case None
    with s1 assms(3) have sq: "second_query fw k1 = (r, k')"
      by (simp add: cell_021d96a0_def and_then_def)
    from f assms(2) have a1: "agent k1 = Some a" and t1: "temp_agent k1 = None" by simp_all
    from second_query_fallback [OF a1 t1 sq assms(4)] f None show ?thesis by simp
  qed
qed

lemmas cell_defs =
  run_notebook_def cell_021d96a0_def cell_8c02f089_fresh and_then_def load_knowledge_def
  first_query_def second_query_def retry_without_markdown_def invoke_def new_def

text \<open>
  C2, as the notebook has it. If the second query, asked with markdown enabled, raises
  an exception derived from \<^verbatim>\<open>Exception\<close>, the notebook prints its notice, builds
  \<^verbatim>\<open>temp_agent\<close> with markdown disabled and asks the whole query once more through it:
  three calls are added to the trace, the failed query, the notice and one retry. What
  the statement ends with is what that one retry ends with: nothing if it returns, the
  retry's own exception if it raises. The first exception is not propagated.
\<close>

theorem second_query_retries_once:
  assumes "agent k = Some a"
      and "fw (store k) (trace k)
             (PrintResponse a ''What is the history of Thai curry?'' True) = Some e"
      and "is_Exception e"
  shows "\<exists>ta k'.
           second_query fw k =
             (fw (store k') (butlast (trace k'))
                (PrintResponse ta ''What is the history of Thai curry?'' True), k') \<and>
           temp_agent k' = Some ta \<and> \<not> markdown ta \<and>
           trace k' = trace k @
             [PrintResponse a ''What is the history of Thai curry?'' True,
              Print retry_notice,
              PrintResponse ta ''What is the history of Thai curry?'' True]"
  using assms unfolding second_query_def retry_without_markdown_def invoke_def new_def
  by (simp add: Let_def butlast_append)

theorem second_query_retries_once_witness:
  "\<exists>a ta k'.
     agent (cell_8c02f089 fresh_kernel) = Some a \<and> markdown a \<and>
     second_query markdown_breaks (cell_8c02f089 fresh_kernel) = (None, k') \<and>
     temp_agent k' = Some ta \<and> \<not> markdown ta \<and> length (trace k') = 3"
proof -
  let ?k = "cell_8c02f089 fresh_kernel"
  obtain a where a: "agent ?k = Some a" and m: "markdown a"
    by (simp add: cell_8c02f089_fresh)
  have raised: "markdown_breaks (store ?k) (trace ?k)
      (PrintResponse a ''What is the history of Thai curry?'' True) =
      Some (Exception ''OutputFormatError'')"
    using m by (simp add: markdown_breaks_def)
  have tr: "trace ?k = []"
    by (simp add: cell_8c02f089_fresh)
  from second_query_retries_once [of ?k a markdown_breaks, OF a raised]
  obtain ta k' where
    sq: "second_query markdown_breaks ?k =
       (markdown_breaks (store k') (butlast (trace k'))
          (PrintResponse ta ''What is the history of Thai curry?'' True), k')"
    and t: "temp_agent k' = Some ta" and nm: "\<not> markdown ta"
    and tk: "trace k' = trace ?k @
             [PrintResponse a ''What is the history of Thai curry?'' True,
              Print retry_notice,
              PrintResponse ta ''What is the history of Thai curry?'' True]"
    by auto
  from nm have "markdown_breaks (store k') (butlast (trace k'))
          (PrintResponse ta ''What is the history of Thai curry?'' True) = None"
    by (simp add: markdown_breaks_def)
  with sq have "second_query markdown_breaks ?k = (None, k')" by simp
  moreover from tk tr have "length (trace k') = 3" by simp
  ultimately show ?thesis using a m t nm by blast
qed

text \<open>
  The claim as the specification states it fails on the notebook: with a library that
  raises the formatting error for the markdown-enabled query and cannot answer the retry
  either, the cell ends with the retry's exception, not with a plain-text answer; and the
  query went through \<^verbatim>\<open>print_response\<close> twice, from the beginning each time.
\<close>

theorem retry_is_unguarded_counterexample:
  "(\<forall>h tr a. curry_unanswerable h tr
      (PrintResponse (a\<lparr>markdown := True\<rparr>) ''What is the history of Thai curry?'' True) =
      Some (Exception ''OutputFormatError'')) \<and>
   fst (run_notebook curry_unanswerable) = Some (Exception ''UpstreamUnavailable'') \<and>
   length (filter (\<lambda>c. case c of
                      PrintResponse a q s \<Rightarrow> q = ''What is the history of Thai curry?''
                    | _ \<Rightarrow> False)
             (trace (snd (run_notebook curry_unanswerable)))) = 2"
  by (simp add: curry_unanswerable_def cell_defs Let_def)

text \<open>
  C6, as the notebook has it. Cell 021d96a0, run with \<^verbatim>\<open>agent\<close> bound, builds no
  failure value and keeps no transcript: when it fails, what reaches the caller is the
  exception that its last call into the library raised, as it was raised. That call is
  \<^verbatim>\<open>knowledge.load()\<close>, the first query, the second query (then the exception is not
  an \<^verbatim>\<open>Exception\<close>, which the handler would have caught), or the retry through the agent
  without markdown; in the first three cases the cell has built no fallback agent.
\<close>

theorem failure_is_the_uncaught_exception:
  assumes "agent k = Some a" and "cell_021d96a0 fw k = (Some e, k')"
  shows "prefix (trace k) (trace k') \<and> length (trace k) < length (trace k') \<and>
         fw (store k') (butlast (trace k')) (last (trace k')) = Some e \<and>
         ((\<exists>kb. knowledge a = Some kb \<and> last (trace k') = Load kb \<and>
             temp_agent k' = temp_agent k) \<or>
          (last (trace k') =
             PrintResponse a ''How do I make chicken and galangal in coconut milk soup'' True \<and>
           temp_agent k' = temp_agent k) \<or>
          (last (trace k') = PrintResponse a ''What is the history of Thai curry?'' True \<and>
           temp_agent k' = temp_agent k \<and> \<not> is_Exception e) \<or>
          (\<exists>ta. temp_agent k' = Some ta \<and> \<not> markdown ta \<and>
             last (trace k') = PrintResponse ta ''What is the history of Thai curry?'' True))"
proof -
  obtain r k1 where s1: "and_then (load_knowledge fw k) (first_query fw) = (r, k1)"
    by (cases "and_then (load_knowledge fw k) (first_query fw)")
  note f = first_statements [OF assms(1) s1]
  note raised = cell_021d96a0_raises [OF assms]
  show ?thesis
  proof (cases r)
    case None
    with s1 assms(2) have sq: "second_query fw k1 = (Some e, k')"
      by (simp add: cell_021d96a0_def and_then_def)
    from f have a1: "agent k1 = Some a" by simp
    from f None have t1: "prefix (trace k) (trace k1)" "length (trace k) < length (trace k1)"
      by simp_all
    from second_query_last_call [OF sq a1] f t1 raised show ?thesis
      by (auto simp: prefix_def)
  next
    case (Some e')
    with s1 assms(2) have eq: "e' = e" "k' = k1"
      by (simp_all add: cell_021d96a0_def and_then_def)
    from first_statements_last_call [OF assms(1)] s1 Some eq
    have "(\<exists>kb. knowledge a = Some kb \<and> trace k' = trace k @ [Load kb]) \<or>
           trace k' = trace k @ map Load (case knowledge a of None \<Rightarrow> [] | Some kb \<Rightarrow> [kb]) @
             [PrintResponse a ''How do I make chicken and galangal in coconut milk soup'' True]"
      by simp
    with f eq raised show ?thesis by (auto simp: prefix_def)
  qed
qed

theorem failure_is_the_uncaught_exception_witness:
  "agent (cell_8c02f089 fresh_kernel) \<noteq> None \<and>
   fst (cell_021d96a0 curry_unanswerable (cell_8c02f089 fresh_kernel)) =
     Some (Exception ''UpstreamUnavailable'') \<and>
   length (trace (snd (run_notebook curry_unanswerable))) = 5 \<and>
   curry_unanswerable (store (snd (run_notebook curry_unanswerable)))
     (butlast (trace (snd (run_notebook curry_unanswerable))))
     (last (trace (snd (run_notebook curry_unanswerable)))) =
     Some (Exception ''UpstreamUnavailable'') \<and>
   (\<exists>ta. temp_agent (snd (run_notebook curry_unanswerable)) = Some ta \<and> \<not> markdown ta \<and>
      last (trace (snd (run_notebook curry_unanswerable))) =
        PrintResponse ta ''What is the history of Thai curry?'' True)"
proof -
  let ?k = "cell_8c02f089 fresh_kernel"
  let ?k' = "snd (run_notebook curry_unanswerable)"
  obtain a where a: "agent ?k = Some a"
    by (simp add: cell_8c02f089_fresh)
  have e: "fst (cell_021d96a0 curry_unanswerable ?k) = Some (Exception ''UpstreamUnavailable'')"
    by (simp add: curry_unanswerable_def cell_defs Let_def)
  then have c: "cell_021d96a0 curry_unanswerable ?k = (Some (Exception ''UpstreamUnavailable''), ?k')"
    by (simp add: prod_eq_iff run_notebook_def)
  have l: "length (trace ?k') = 5" and t: "temp_agent ?k' \<noteq> None"
    by (simp_all add: curry_unanswerable_def cell_defs Let_def)
  have t0: "temp_agent ?k = None"
    by (simp add: cell_8c02f089_fresh)
  from failure_is_the_uncaught_exception [OF a c] a e l t t0 show ?thesis
    by auto
qed

text \<open>
  The claim as the specification states it fails on the notebook: when the library
  cannot reach its model, the first query, which stands outside any \<^verbatim>\<open>try\<close>, ends the
  cell with the exception, uncaught; nothing after it runs.
\<close>

theorem first_query_is_unguarded_counterexample:
  "fst (run_notebook model_unreachable) = Some (Exception ''UpstreamUnavailable'') \<and>
   length (trace (snd (run_notebook model_unreachable))) = 2 \<and>
   temp_agent (snd (run_notebook model_unreachable)) = None"
  by (simp add: model_unreachable_def cell_defs Let_def)

text \<open>
  C9. Whenever the handler has run, the agent it built has the configuration of the
  original agent: an equal chat model (\<^verbatim>\<open>gpt-4o-mini\<close>), the same description and
  instructions, an equal tool list (one \<^verbatim>\<open>DuckDuckGoTools\<close>) and the same
  \<^verbatim>\<open>show_tool_calls\<close>; markdown is on in the original and off in the new one; and its
  knowledge base is the very object of the original agent, the same address in the store.
  The knowledge base was loaded once, by the first call of the cell, and no call after
  that is a load.
\<close>

theorem fallback_agent_shares_knowledge:
  assumes "run_notebook fw = (r, k)" and "temp_agent k = Some ta" and "agent k = Some a"
  shows "lookup (store k) (model ta) = lookup (store k) (model a) \<and>
         lookup (store k) (model a) = Some (OpenAIChat ''gpt-4o-mini'') \<and>
         description ta = description a \<and>
         instructions ta = instructions a \<and>
         map (lookup (store k)) (tools ta) = map (lookup (store k)) (tools a) \<and>
         map (lookup (store k)) (tools a) = [Some DuckDuckGoTools] \<and>
         show_tool_calls ta = show_tool_calls a \<and>
         markdown a \<and> \<not> markdown ta \<and>
         knowledge ta = knowledge a \<and>
         map Load (case knowledge a of None \<Rightarrow> [] | Some kb \<Rightarrow> [kb]) =
           filter is_Load (trace k) \<and>
         length (filter is_Load (trace k)) = 1 \<and>
         filter is_Load (drop 1 (trace k)) = []"
proof -
  let ?k0 = "cell_8c02f089 fresh_kernel"
  obtain a0 where a0: "agent ?k0 = Some a0" and t0: "temp_agent ?k0 = None"
    by (simp add: cell_8c02f089_fresh)
  have cell: "cell_021d96a0 fw ?k0 = (r, k)"
    using assms(1) by (simp add: run_notebook_def)
  note fb = cell_021d96a0_fallback [OF a0 t0 cell assms(2)]
  from fb assms(3) have [simp]: "a = a0" by simp
  have a0_eq: "a0 = \<lparr>model = 0,
                description = ''You are a Thai cuisine expert!'',
                instructions =
                  [''Search your knowledge base for Thai recipes.'',
                   ''If the question is better suited for the web, search the web to fill in gaps.'',
                   ''Prefer the information in your knowledge base over the web results.''],
                knowledge = Some 3,
                tools = [4],
                show_tool_calls = True,
                markdown = True\<rparr>"
    using a0 by (simp add: cell_8c02f089_fresh)
  have ta: "ta = \<lparr>model = 5,
                description = ''You are a Thai cuisine expert!'',
                instructions =
                  [''Search your knowledge base for Thai recipes.'',
                   ''If the question is better suited for the web, search the web to fill in gaps.'',
                   ''Prefer the information in your knowledge base over the web results.''],
                knowledge = Some 3,
                tools = [6],
                show_tool_calls = True,
                markdown = False\<rparr>"
    using fb by (simp add: a0_eq cell_8c02f089_fresh)
  have st: "store k = store ?k0 @ [OpenAIChat ''gpt-4o-mini'', DuckDuckGoTools]"
    using fb by simp
  have tr: "trace k = [Load 3,
            PrintResponse a0 ''How do I make chicken and galangal in coconut milk soup'' True,
            PrintResponse a0 ''What is the history of Thai curry?'' True,
            Print retry_notice,
            PrintResponse ta ''What is the history of Thai curry?'' True]"
    using fb by (simp add: a0_eq cell_8c02f089_fresh)
  show ?thesis
    by (simp add: st tr, simp add: ta a0_eq lookup_def cell_8c02f089_fresh)
qed

theorem fallback_agent_shares_knowledge_witness:
  "\<exists>ta a. temp_agent (snd (run_notebook markdown_breaks)) = Some ta \<and>
          agent (snd (run_notebook markdown_breaks)) = Some a \<and>
          fst (run_notebook markdown_breaks) = None \<and>
          knowledge ta = knowledge a \<and> knowledge a = Some 3 \<and>
          markdown a \<and> \<not> markdown ta \<and>
          filter is_Load (trace (snd (run_notebook markdown_breaks))) = [Load 3]"
proof -
  let ?k = "snd (run_notebook markdown_breaks)"
  have r: "run_notebook markdown_breaks = (fst (run_notebook markdown_breaks), ?k)"
    by simp
  obtain ta where ta: "temp_agent ?k = Some ta"
    by (simp add: markdown_breaks_def cell_defs Let_def)
  obtain a where a: "agent ?k = Some a" and kb: "knowledge a = Some 3"
    by (simp add: markdown_breaks_def cell_defs Let_def)
  have ok: "fst (run_notebook markdown_breaks) = None"
    by (simp add: markdown_breaks_def cell_defs Let_def)
  from fallback_agent_shares_knowledge [OF r ta a] ta a kb ok
  show ?thesis by auto
qed

section \<open>Properties of the agent loop of the specification\<close>

subsection \<open>Tool results\<close>

lemma insort_key_fst_map:
  "insort_key fst (i, f i) (map (\<lambda>j. (j, f j)) ys) = map (\<lambda>j. (j, f j)) (insort i ys)"
  by (induction ys) simp_all

lemma sort_key_fst_map:
  "sort_key fst (map (\<lambda>j. (j, f j)) xs) = map (\<lambda>j. (j, f j)) (sort xs)"
  by (induction xs) (simp_all add: insort_key_fst_map)

lemma sort_permutation:
  assumes "distinct order" and "set order = {0..<n}"
  shows "sort order = [0..<n]"
  by (rule sorted_distinct_set_unique) (simp_all add: assms)

lemma collect_execute_in:
  assumes "distinct order" and "set order = {0..<length cs}"
  shows "collect (execute_in order reg cs) cs =
         map (\<lambda>c. ToolResultTurn c (dispatch reg (tool_name c) (arguments c))) cs"
proof -
  have "sort_key fst (execute_in order reg cs) =
        map (\<lambda>i. (i, dispatch reg (tool_name (cs ! i)) (arguments (cs ! i)))) [0..<length cs]"
    unfolding execute_in_def
    by (simp only: sort_key_fst_map sort_permutation [OF assms])
  then have "collect (execute_in order reg cs) cs =
        map (\<lambda>i. ToolResultTurn (cs ! i) (dispatch reg (tool_name (cs ! i)) (arguments (cs ! i))))
          [0..<length cs]"
    by (simp add: collect_def comp_def)
  also have "\<dots> = map (\<lambda>c. ToolResultTurn c (dispatch reg (tool_name c) (arguments c))) cs"
    by (rule nth_equalityI) simp_all
  finally show ?thesis .
qed

lemma resolve_eq:
  "resolve time reg cs =
   map (\<lambda>c. ToolResultTurn c (dispatch reg (tool_name c) (arguments c))) cs"
  unfolding resolve_def
  by (rule collect_execute_in) (simp_all add: completion_order_def)

lemma no_final_resolve: "list_all (\<lambda>t. \<not> is_final t) (resolve time reg cs)"
  by (simp add: resolve_eq list_all_iff)


subsection \<open>The loop\<close>

lemma drive_terminal_id:
  "state r = completed \<or> state r = failed \<Longrightarrow> drive ctl req r = r"
  by (simp add: drive.simps [of ctl req r])

lemma drive_unfold:
  "state r = pending \<or> state r = awaiting_tool_result \<Longrightarrow>
     drive ctl req r = drive ctl req (step ctl req r)"
  by (auto simp: drive.simps [of ctl req r])

lemma step_terminal_id:
  "state r = completed \<or> state r = failed \<Longrightarrow> step ctl req r = r"
  by (auto simp: step_def)

lemma steps_terminal_id:
  "state r = completed \<or> state r = failed \<Longrightarrow> (step ctl req ^^ n) r = r"
  by (induction n) (simp_all add: step_terminal_id)

lemma step_prefix: "prefix (transcript r) (transcript (step ctl req r))"
  by (simp add: step_def split: RunState.splits option.splits Response.splits)

lemma steps_prefix: "prefix (transcript r) (transcript ((step ctl req ^^ n) r))"
proof (induction n)
  case 0
  show ?case by simp
next
  case (Suc n)
  have "prefix (transcript ((step ctl req ^^ n) r)) (transcript ((step ctl req ^^ Suc n) r))"
    by (simp add: step_prefix)
  with Suc show ?case by (rule prefix_order.trans)
qed

lemma step_sched: "step (ctl\<lparr>completion_time := sched\<rparr>) req r = step ctl req r"
  by (cases "state r") (simp_all add: step_def resolve_eq)

lemma drive_sched: "drive (ctl\<lparr>completion_time := sched\<rparr>) req r = drive ctl req r"
proof (induction ctl req r rule: drive.induct)
  case (1 ctl req r)
  show ?case
  proof (cases "state r = completed \<or> state r = failed")
    case True
    then show ?thesis by (simp add: drive_terminal_id)
  next
    case False
    then have "drive (ctl\<lparr>completion_time := sched\<rparr>) req r =
               drive (ctl\<lparr>completion_time := sched\<rparr>) req (step ctl req r)"
      by (simp add: drive.simps [of "ctl\<lparr>completion_time := sched\<rparr>" req r] step_sched)
    also have "\<dots> = drive ctl req (step ctl req r)"
      by (rule "1.IH" [OF False])
    also have "\<dots> = drive ctl req r"
      using False by (simp add: drive.simps [of ctl req r])
    finally show ?thesis .
  qed
qed

lemma drive_reachable: "reachable ctl req r \<Longrightarrow> reachable ctl req (drive ctl req r)"
proof (induction ctl req r rule: drive.induct)
  case (1 ctl req r)
  show ?case
  proof (cases "state r = completed \<or> state r = failed")
    case True
    then show ?thesis using "1.prems" by (simp add: drive_terminal_id)
  next
    case False
    then have "drive ctl req r = drive ctl req (step ctl req r)"
      by (simp add: drive.simps [of ctl req r])
    moreover have "reachable ctl req (drive ctl req (step ctl req r))"
      using False "1.prems" by (intro "1.IH") (auto intro: reachable_step)
    ultimately show ?thesis by simp
  qed
qed

lemma drive_terminal:
  "state (drive ctl req r) = completed \<or> state (drive ctl req r) = failed"
proof (induction ctl req r rule: drive.induct)
  case (1 ctl req r)
  show ?case
  proof (cases "state r = completed \<or> state r = failed")
    case True
    then show ?thesis by (simp add: drive_terminal_id)
  next
    case False
    then have "drive ctl req r = drive ctl req (step ctl req r)"
      by (simp add: drive.simps [of ctl req r])
    with "1.IH" [OF False] show ?thesis by simp
  qed
qed

subsection \<open>The shape of a transcript\<close>

lemma no_final_before:
  assumes "state r = completed \<longleftrightarrow> transcript r \<noteq> [] \<and> is_final (last (transcript r))"
      and "list_all (\<lambda>t. \<not> is_final t) (butlast (transcript r))"
      and "state r \<noteq> completed"
  shows "list_all (\<lambda>t. \<not> is_final t) (transcript r)"
  using assms unfolding list_all_iff
  by (cases "transcript r" rule: rev_cases) auto

lemma shape_no_final:
  assumes "list_all (\<lambda>t. \<not> is_final t) (transcript r)" and "state r \<noteq> completed"
  shows "(state r = completed \<longleftrightarrow> transcript r \<noteq> [] \<and> is_final (last (transcript r))) \<and>
         list_all (\<lambda>t. \<not> is_final t) (butlast (transcript r))"
proof -
  have "transcript r \<noteq> [] \<Longrightarrow> \<not> is_final (last (transcript r))"
    using assms(1) by (simp add: list_all_iff)
  moreover have "list_all (\<lambda>t. \<not> is_final t) (butlast (transcript r))"
    using assms(1) by (auto simp: list_all_iff dest: in_set_butlastD)
  ultimately show ?thesis using assms(2) by auto
qed

lemma shape_step:
  assumes "(state r = completed \<longleftrightarrow> transcript r \<noteq> [] \<and> is_final (last (transcript r))) \<and>
           list_all (\<lambda>t. \<not> is_final t) (butlast (transcript r))"
  shows "(state (step ctl req r) = completed \<longleftrightarrow>
            transcript (step ctl req r) \<noteq> [] \<and> is_final (last (transcript (step ctl req r)))) \<and>
         list_all (\<lambda>t. \<not> is_final t) (butlast (transcript (step ctl req r)))"
proof (cases "state r")
  case completed
  then show ?thesis using assms by (simp add: step_def)
next
  case failed
  then show ?thesis using assms by (simp add: step_def)
next
  case awaiting_tool_result
  from assms have
    "state r = completed \<longleftrightarrow> transcript r \<noteq> [] \<and> is_final (last (transcript r))"
    and "list_all (\<lambda>t. \<not> is_final t) (butlast (transcript r))"
    by simp_all
  then have nf: "list_all (\<lambda>t. \<not> is_final t) (transcript r)"
    by (rule no_final_before) (simp add: awaiting_tool_result)
  show ?thesis
    by (rule shape_no_final) (simp_all add: step_def awaiting_tool_result nf no_final_resolve)
next
  case pending
  from assms have
    "state r = completed \<longleftrightarrow> transcript r \<noteq> [] \<and> is_final (last (transcript r))"
    and "list_all (\<lambda>t. \<not> is_final t) (butlast (transcript r))"
    by simp_all
  then have nf: "list_all (\<lambda>t. \<not> is_final t) (transcript r)"
    by (rule no_final_before) (simp add: pending)
  show ?thesis
  proof (cases "step_count r < max_steps ctl")
    case False
    show ?thesis
      by (rule shape_no_final) (simp_all add: step_def pending False nf)
  next
    case True
    show ?thesis
    proof (cases "service ctl (instruction req) (transcript r)
                    (map (\<lambda>t. (name t, input_schema t)) (usable_tools req))")
      case None
      show ?thesis
        by (rule shape_no_final) (simp_all add: step_def pending True None nf)
    next
      case (Some resp)
      show ?thesis
      proof (cases resp)
        case (final_answer ans)
        then show ?thesis using nf
          by (simp add: step_def pending True Some)
      next
        case (tool_calls cs)
        show ?thesis
          by (rule shape_no_final) (simp_all add: step_def pending True Some tool_calls nf)
      qed
    qed
  qed
qed

lemma reachable_shape:
  "reachable ctl req r \<Longrightarrow>
     (state r = completed \<longleftrightarrow> transcript r \<noteq> [] \<and> is_final (last (transcript r))) \<and>
     list_all (\<lambda>t. \<not> is_final t) (butlast (transcript r))"
proof (induction rule: reachable.induct)
  case reachable_initial
  show ?case by (simp add: initial_def)
next
  case (reachable_step r)
  from reachable_step.IH show ?case by (rule shape_step)
qed

lemma reachable_failure:
  "reachable ctl req r \<Longrightarrow>
     (state r = failed \<and> (failure r = Some StepBudgetExceeded \<or> failure r = Some UpstreamUnavailable)) \<or>
     (state r \<noteq> failed \<and> failure r = None)"
proof (induction rule: reachable.induct)
  case reachable_initial
  show ?case by (simp add: initial_def)
next
  case (reachable_step r)
  then show ?case
    by (auto simp: step_def split: RunState.splits option.splits Response.splits)
qed

lemma run_returns:
  "\<exists>res. run ctl req = Some res \<and>
     (case res of
        FinalAnswer ans \<Rightarrow> state (drive ctl req initial) = completed
      | Failure k ts \<Rightarrow>
          (k = StepBudgetExceeded \<or> k = UpstreamUnavailable) \<and>
          ts = transcript (drive ctl req initial))"
proof -
  let ?r = "drive ctl req initial"
  have re: "reachable ctl req ?r"
    by (rule drive_reachable) (rule reachable_initial)
  note sh = reachable_shape [OF re] and fl = reachable_failure [OF re]
  show ?thesis
  proof (cases "state ?r = completed")
    case True
    with sh have ne: "transcript ?r \<noteq> []" and fin: "is_final (last (transcript ?r))" by simp_all
    then obtain ts t where ts: "transcript ?r = ts @ [t]"
      by (cases "transcript ?r" rule: rev_cases) simp_all
    with fin obtain ans where "t = FinalAnswerTurn ans" by (cases t) simp_all
    with True ts show ?thesis by (simp add: run_def outcome_def)
  next
    case False
    with drive_terminal [of ctl req initial] have "state ?r = failed" by simp
    with fl show ?thesis by (auto simp: run_def outcome_def)
  qed
qed

lemma immediate_answer:
  assumes "0 < max_steps ctl"
      and "service ctl (instruction req) []
             (map (\<lambda>t. (name t, input_schema t)) (usable_tools req)) = Some (final_answer ans)"
  shows "run ctl req = Some (FinalAnswer ans)"
proof -
  have s: "step ctl req initial =
           initial\<lparr>transcript := [FinalAnswerTurn ans], state := completed\<rparr>"
    using assms by (simp add: step_def initial_def)
  have "drive ctl req initial = drive ctl req (step ctl req initial)"
    by (rule drive_unfold) (simp add: initial_def)
  also have "\<dots> = step ctl req initial"
    by (rule drive_terminal_id) (simp add: s)
  finally show ?thesis by (simp add: run_def outcome_def s)
qed


lemma step_awaiting:
  "state r = awaiting_tool_result \<Longrightarrow>
     step ctl req r =
       r\<lparr>transcript := transcript r @
            map (\<lambda>c. ToolResultTurn c (dispatch (usable_tools req) (tool_name c) (arguments c)))
              (in_flight r),
         state := pending, step_count := Suc (step_count r), in_flight := []\<rparr>"
  by (simp add: step_def resolve_eq)

lemma step_proposal:
  assumes "state r = pending" and "step_count r < max_steps ctl"
      and "service ctl (instruction req) (transcript r)
             (map (\<lambda>t. (name t, input_schema t)) (usable_tools req)) = Some (tool_calls cs)"
  shows "step ctl req r =
           r\<lparr>transcript := transcript r @ [ProposalTurn cs],
             state := awaiting_tool_result, in_flight := cs\<rparr>"
  using assms by (simp add: step_def)

lemma step_round:
  assumes "state r = pending" and "step_count r < max_steps ctl"
      and "service ctl (instruction req) (transcript r)
             (map (\<lambda>t. (name t, input_schema t)) (usable_tools req)) = Some (tool_calls cs)"
  shows "step ctl req (step ctl req r) =
           r\<lparr>transcript := transcript r @ ProposalTurn cs #
                map (\<lambda>c. ToolResultTurn c
                       (dispatch (usable_tools req) (tool_name c) (arguments c))) cs,
             state := pending, step_count := Suc (step_count r), in_flight := []\<rparr>"
  by (simp add: step_proposal [OF assms] step_awaiting)

lemma step_cong:
  assumes "instruction req' = instruction req" and "usable_tools req' = usable_tools req"
  shows "step ctl req' r = step ctl req r"
  by (cases "state r") (simp_all add: step_def assms)

lemma drive_cong:
  assumes "instruction req' = instruction req" and "usable_tools req' = usable_tools req"
  shows "drive ctl req' r = drive ctl req r"
  using assms
proof (induction ctl req r rule: drive.induct)
  case (1 ctl req r)
  show ?case
  proof (cases "state r = completed \<or> state r = failed")
    case True
    then show ?thesis by (simp add: drive_terminal_id)
  next
    case False
    then have "drive ctl req' r = drive ctl req' (step ctl req r)"
      by (simp add: drive.simps [of ctl req' r] step_cong [OF "1.prems"])
    also have "\<dots> = drive ctl req (step ctl req r)"
      by (rule "1.IH" [OF False "1.prems"])
    also have "\<dots> = drive ctl req r"
      using False by (simp add: drive.simps [of ctl req r])
    finally show ?thesis .
  qed
qed


lemma run_cong:
  assumes "instruction req' = instruction req" and "usable_tools req' = usable_tools req"
  shows "run ctl req' = run ctl req"
  by (simp add: run_def drive_cong [OF assms])

lemma answer_after_one_round:
  assumes "1 < max_steps ctl"
      and "service ctl (instruction req) []
             (map (\<lambda>t. (name t, input_schema t)) (usable_tools req)) = Some (tool_calls cs)"
      and "service ctl (instruction req)
             (ProposalTurn cs #
                map (\<lambda>c. ToolResultTurn c
                       (dispatch (usable_tools req) (tool_name c) (arguments c))) cs)
             (map (\<lambda>t. (name t, input_schema t)) (usable_tools req)) = Some (final_answer ans)"
  shows "run ctl req = Some (FinalAnswer ans)"
proof -
  let ?results = "map (\<lambda>c. ToolResultTurn c
                       (dispatch (usable_tools req) (tool_name c) (arguments c))) cs"
  define r1 where "r1 = step ctl req initial"
  define r2 where "r2 = step ctl req r1"
  define r3 where "r3 = step ctl req r2"
  have r1: "r1 = initial\<lparr>transcript := [ProposalTurn cs],
                          state := awaiting_tool_result, in_flight := cs\<rparr>"
    using assms(1,2) by (simp add: r1_def step_def initial_def)
  have r2: "r2 = initial\<lparr>transcript := ProposalTurn cs # ?results,
                          state := pending, step_count := 1, in_flight := []\<rparr>"
    by (simp add: r2_def r1 step_awaiting initial_def)
  have r3: "r3 = initial\<lparr>transcript := ProposalTurn cs # ?results @ [FinalAnswerTurn ans],
                          state := completed, step_count := 1, in_flight := []\<rparr>"
    using assms(1,3) by (simp add: r3_def r2 step_def initial_def)
  have "drive ctl req initial = drive ctl req r1"
    unfolding r1_def by (rule drive_unfold) (simp add: initial_def)
  also have "\<dots> = drive ctl req r2"
    unfolding r2_def by (rule drive_unfold) (simp add: r1)
  also have "\<dots> = drive ctl req r3"
    unfolding r3_def by (rule drive_unfold) (simp add: r2)
  also have "\<dots> = r3"
    by (rule drive_terminal_id) (simp add: r3)
  finally show ?thesis by (simp add: run_def outcome_def r3)
qed

lemma dispatch_unknown:
  assumes "\<forall>t \<in> set reg. name t \<noteq> n"
  shows "dispatch reg n args = ToolError UnknownTool n"
proof -
  from assms have "find (\<lambda>t. name t = n) reg = None"
    by (simp add: find_None_iff)
  then show ?thesis by (simp add: dispatch_def)
qed

lemmas loop_defs =
  step_def initial_def usable_tools_def populated_def ensure_loaded_def ingest_def
  chunks_of_def resolve_eq dispatch_def satisfies_def outcome_def run_def
  thai_request_def thai_controller_def stubborn_controller_def scripted_def insistent_def
  ask_both_def search_knowledge_base_def duckduckgo_search_def

lemma thai_run:
  "drive thai_controller thai_request initial =
     \<lparr>transcript =
        [ProposalTurn ask_both,
         ToolResultTurn (ask_both ! 0) (ToolError UnknownTool ''search_knowledge_base''),
         ToolResultTurn (ask_both ! 1) (ToolResult ''Curry reached Thailand from India''),
         FinalAnswerTurn ''No knowledge was found; the web says it came from India.''],
      state = completed, step_count = 1, in_flight = [], failure = None\<rparr>"
  by (simp add: drive.simps loop_defs)

lemmas patient_defs =
  patient_controller_def patient_def request_over_def ask_recipes_def web_first_def

text \<open>
  C1. In every state a run passes through: the transcript of every later state extends
  the transcript of this one (nothing is rewritten, removed or reordered); no turn but the
  last is a final answer; the run is \<^verbatim>\<open>completed\<close> exactly when its transcript ends with
  a final answer, so appending a final answer completes the run in the same transition;
  a completed run never changes again; and the state the loop returns is one of them.
\<close>

theorem transcript_append_only:
  assumes "reachable ctl req r"
  shows "(\<forall>n. prefix (transcript r) (transcript ((step ctl req ^^ n) r))) \<and>
         list_all (\<lambda>t. \<not> is_final t) (butlast (transcript r)) \<and>
         (state r = completed \<longleftrightarrow> transcript r \<noteq> [] \<and> is_final (last (transcript r))) \<and>
         (state r = completed \<longrightarrow> (\<forall>n. (step ctl req ^^ n) r = r)) \<and>
         reachable ctl req (drive ctl req r)"
  using reachable_shape [OF assms] drive_reachable [OF assms]
  by (simp add: steps_prefix steps_terminal_id)

theorem transcript_append_only_witness:
  "reachable thai_controller thai_request (drive thai_controller thai_request initial) \<and>
   state (drive thai_controller thai_request initial) = completed \<and>
   last (transcript (drive thai_controller thai_request initial)) =
     FinalAnswerTurn ''No knowledge was found; the web says it came from India.'' \<and>
   list_all (\<lambda>t. \<not> is_final t)
     (butlast (transcript (drive thai_controller thai_request initial))) \<and>
   prefix (transcript (drive thai_controller thai_request initial))
     (transcript ((step thai_controller thai_request ^^ 4)
        (drive thai_controller thai_request initial))) \<and>
   (step thai_controller thai_request ^^ 4) (drive thai_controller thai_request initial) =
     drive thai_controller thai_request initial"
proof -
  have re: "reachable thai_controller thai_request (drive thai_controller thai_request initial)"
    by (rule drive_reachable) (rule reachable_initial)
  have "state (drive thai_controller thai_request initial) = completed"
    and "last (transcript (drive thai_controller thai_request initial)) =
      FinalAnswerTurn ''No knowledge was found; the web says it came from India.''"
    by (simp_all add: thai_run)
  with transcript_append_only [OF re] re show ?thesis by simp
qed

text \<open>
  C3, as the loop of the specification has it. When ingestion yields no indexable chunk,
  the ingestion check answers \<^verbatim>\<open>EmptyIndexWarning\<close> and marks the index empty; it has
  no failure to answer with, and asked again it answers the same without ingesting
  again. A run over that index is the run of the same request without its retrieval
  tools and without an index: the service is offered the other tools only, every
  proposal is answered with the results of dispatching over the other tools, and a call
  of a name that only retrieval tools bear is answered with the tool error
  \<^verbatim>\<open>UnknownTool\<close>. The run returns, with a final answer or with one of the two
  loop-level failures and the transcript; it returns the final answer when the service
  gives one at once, or after one round of tool calls within the budget.
\<close>

theorem empty_index_degrades:
  assumes "fst (ingest [] docs) = 0"
      and "knowledge_index req = Some (snd (ensure_loaded NotLoaded docs))"
  shows "ensure_loaded NotLoaded docs = (EmptyIndexWarning, Loaded []) \<and>
         ensure_loaded (snd (ensure_loaded NotLoaded docs)) again =
           (EmptyIndexWarning, Loaded []) \<and>
         usable_tools req = filter (\<lambda>t. family t \<noteq> Retrieval) (selected_tools req) \<and>
         run ctl req =
           run ctl (req\<lparr>selected_tools :=
                           filter (\<lambda>t. family t \<noteq> Retrieval) (selected_tools req),
                         knowledge_index := None\<rparr>) \<and>
         (state r = awaiting_tool_result \<longrightarrow>
            transcript (step ctl req r) =
              transcript r @
              map (\<lambda>c. ToolResultTurn c
                     (dispatch (filter (\<lambda>t. family t \<noteq> Retrieval) (selected_tools req))
                        (tool_name c) (arguments c)))
                (in_flight r)) \<and>
         ((\<forall>t \<in> set (selected_tools req). name t = n \<longrightarrow> family t = Retrieval) \<longrightarrow>
            dispatch (usable_tools req) n args = ToolError UnknownTool n) \<and>
         (\<exists>res. run ctl req = Some res \<and>
            (case res of
               FinalAnswer ans \<Rightarrow> state (drive ctl req initial) = completed
             | Failure k ts \<Rightarrow>
                 (k = StepBudgetExceeded \<or> k = UpstreamUnavailable) \<and>
                 ts = transcript (drive ctl req initial))) \<and>
         (0 < max_steps ctl \<and>
          service ctl (instruction req) []
            (map (\<lambda>t. (name t, input_schema t))
               (filter (\<lambda>t. family t \<noteq> Retrieval) (selected_tools req))) =
            Some (final_answer ans)
          \<longrightarrow> run ctl req = Some (FinalAnswer ans)) \<and>
         (1 < max_steps ctl \<and>
          service ctl (instruction req) []
            (map (\<lambda>t. (name t, input_schema t))
               (filter (\<lambda>t. family t \<noteq> Retrieval) (selected_tools req))) =
            Some (tool_calls cs) \<and>
          service ctl (instruction req)
            (ProposalTurn cs #
               map (\<lambda>c. ToolResultTurn c
                      (dispatch (filter (\<lambda>t. family t \<noteq> Retrieval) (selected_tools req))
                         (tool_name c) (arguments c))) cs)
            (map (\<lambda>t. (name t, input_schema t))
               (filter (\<lambda>t. family t \<noteq> Retrieval) (selected_tools req))) =
            Some (final_answer ans')
          \<longrightarrow> run ctl req = Some (FinalAnswer ans'))"
proof -
  let ?others = "filter (\<lambda>t. family t \<noteq> Retrieval) (selected_tools req)"
  from assms(1) have warned: "ensure_loaded NotLoaded docs = (EmptyIndexWarning, Loaded [])"
    by (simp add: ensure_loaded_def ingest_def populated_def Let_def)
  from warned have again: "ensure_loaded (snd (ensure_loaded NotLoaded docs)) again =
           (EmptyIndexWarning, Loaded [])"
    by (simp add: ensure_loaded_def populated_def)
  from warned assms(2) have tools: "usable_tools req = ?others"
    by (simp add: usable_tools_def populated_def)
  have same: "run ctl req = run ctl (req\<lparr>selected_tools := ?others, knowledge_index := None\<rparr>)"
    by (rule run_cong [symmetric]) (simp_all add: tools, simp add: usable_tools_def)
  have results: "state r = awaiting_tool_result \<longrightarrow>
            transcript (step ctl req r) =
              transcript r @
              map (\<lambda>c. ToolResultTurn c (dispatch ?others (tool_name c) (arguments c)))
                (in_flight r)"
    by (simp add: step_awaiting tools)
  have unknown: "(\<forall>t \<in> set (selected_tools req). name t = n \<longrightarrow> family t = Retrieval) \<longrightarrow>
            dispatch (usable_tools req) n args = ToolError UnknownTool n"
    unfolding tools by (auto intro!: dispatch_unknown)
  note returns = run_returns [of ctl req]
  note at_once = immediate_answer [of ctl req ans, unfolded tools]
  note one_round = answer_after_one_round [of ctl req cs ans', unfolded tools]
  from warned again tools same results unknown returns at_once one_round
  show ?thesis by blast
qed

theorem empty_index_degrades_witness:
  "fst (ingest []
     [Unreachable ''https://agno-public.s3.amazonaws.com/recipes/ThaiRecipes.pdf'']) = 0 \<and>
   ensure_loaded NotLoaded
     [Unreachable ''https://agno-public.s3.amazonaws.com/recipes/ThaiRecipes.pdf''] =
     (EmptyIndexWarning, Loaded []) \<and>
   usable_tools thai_request = [duckduckgo_search] \<and>
   dispatch (usable_tools thai_request) ''search_knowledge_base''
     [(''query'', Text ''Thai curry'')] = ToolError UnknownTool ''search_knowledge_base'' \<and>
   state (step thai_controller thai_request initial) = awaiting_tool_result \<and>
   transcript (step thai_controller thai_request (step thai_controller thai_request initial)) =
     [ProposalTurn ask_both,
      ToolResultTurn (ask_both ! 0) (ToolError UnknownTool ''search_knowledge_base''),
      ToolResultTurn (ask_both ! 1) (ToolResult ''Curry reached Thailand from India'')] \<and>
   run thai_controller thai_request =
     Some (FinalAnswer ''No knowledge was found; the web says it came from India.'') \<and>
   run thai_controller (thai_request\<lparr>selected_tools := [duckduckgo_search],
                                      knowledge_index := None\<rparr>) =
     Some (FinalAnswer ''No knowledge was found; the web says it came from India.'')"
proof -
  let ?docs = "[Unreachable ''https://agno-public.s3.amazonaws.com/recipes/ThaiRecipes.pdf'']"
  let ?r = "step thai_controller thai_request initial"
  have z: "fst (ingest [] ?docs) = 0"
    by (simp add: ingest_def chunks_of_def)
  have k: "knowledge_index thai_request = Some (snd (ensure_loaded NotLoaded ?docs))"
    by (simp add: thai_request_def)
  have others: "filter (\<lambda>t. family t \<noteq> Retrieval) (selected_tools thai_request) =
                  [duckduckgo_search]"
    by (simp add: thai_request_def search_knowledge_base_def duckduckgo_search_def)
  have only: "\<forall>t \<in> set (selected_tools thai_request).
                name t = ''search_knowledge_base'' \<longrightarrow> family t = Retrieval"
    by (simp add: thai_request_def search_knowledge_base_def duckduckgo_search_def)
  have r: "state ?r = awaiting_tool_result" "transcript ?r = [ProposalTurn ask_both]"
    "in_flight ?r = ask_both"
    by (simp_all add: loop_defs)
  have results:
    "map (\<lambda>c. ToolResultTurn c (dispatch [duckduckgo_search] (tool_name c) (arguments c)))
       ask_both =
     [ToolResultTurn (ask_both ! 0) (ToolError UnknownTool ''search_knowledge_base''),
      ToolResultTurn (ask_both ! 1) (ToolResult ''Curry reached Thailand from India'')]"
    by (simp add: dispatch_def satisfies_def ask_both_def duckduckgo_search_def)
  have answered: "run thai_controller thai_request =
      Some (FinalAnswer ''No knowledge was found; the web says it came from India.'')"
    by (simp add: run_def outcome_def thai_run)
  have unknown: "dispatch [duckduckgo_search] ''search_knowledge_base''
      [(''query'', Text ''Thai curry'')] = ToolError UnknownTool ''search_knowledge_base''"
    by (simp add: dispatch_def duckduckgo_search_def)
  from empty_index_degrades [OF z k, where ctl = thai_controller and r = ?r
      and n = "''search_knowledge_base''" and args = "[(''query'', Text ''Thai curry'')]"
      and again = "[]" and ans = "[]" and cs = ask_both
      and ans' = "''No knowledge was found; the web says it came from India.''"]
    z others only r results answered unknown
  show ?thesis by simp
qed

text \<open>
  The claim as the specification states it fails on this loop: the run over an empty
  index need not complete. A service that asks for the recipes until a retrieval has
  delivered them completes over an index that holds a chunk; over the empty index, with
  the same controller and the same selected tools, every retrieval is answered with
  \<^verbatim>\<open>UnknownTool\<close> and the run ends with \<^verbatim>\<open>StepBudgetExceeded\<close>.
\<close>

theorem empty_index_exhausts_budget_counterexample:
  "fst (ingest []
     [Unreachable ''https://agno-public.s3.amazonaws.com/recipes/ThaiRecipes.pdf'']) = 0 \<and>
   fst (ensure_loaded NotLoaded
     [Unreachable ''https://agno-public.s3.amazonaws.com/recipes/ThaiRecipes.pdf'']) =
     EmptyIndexWarning \<and>
   run patient_controller (request_over [Readable [''Tom Kha Gai'']]) =
     Some (FinalAnswer ''Simmer the chicken with galangal in coconut milk.'') \<and>
   run patient_controller
     (request_over
        [Unreachable ''https://agno-public.s3.amazonaws.com/recipes/ThaiRecipes.pdf'']) =
     Some (Failure StepBudgetExceeded
       [ProposalTurn ask_recipes,
        ToolResultTurn (ask_recipes ! 0) (ToolError UnknownTool ''search_knowledge_base''),
        ProposalTurn ask_recipes,
        ToolResultTurn (ask_recipes ! 0) (ToolError UnknownTool ''search_knowledge_base''),
        ProposalTurn ask_recipes,
        ToolResultTurn (ask_recipes ! 0) (ToolError UnknownTool ''search_knowledge_base'')])"
  by (simp add: drive.simps step_def initial_def usable_tools_def populated_def
      ensure_loaded_def ingest_def chunks_of_def resolve_eq dispatch_def satisfies_def
      outcome_def run_def search_knowledge_base_def duckduckgo_search_def patient_defs)



text \<open>
  C5. Whatever the order in which the executions of one step complete (any arrangement
  of the positions of its invocations), the tool-result turns the step appends to the
  transcript are those of the invocations in the order they were proposed, each with the
  result of its own invocation: what an awaiting run appends is what the join collects
  from the results in any order of arrival, and after a proposal and its results the
  transcript is the earlier transcript, the proposal, and the results in proposal order,
  for every schedule of completion times. So the step, and with it the whole run, does
  not depend on the completion times: the transcript the service sees next is a function
  of the proposal alone.
\<close>

theorem tool_results_in_proposal_order:
  assumes "distinct order" and "set order = {0..<length cs}"
  shows "collect (execute_in order reg cs) cs =
           map (\<lambda>c. ToolResultTurn c (dispatch reg (tool_name c) (arguments c))) cs \<and>
         resolve time reg cs = collect (execute_in order reg cs) cs \<and>
         (state r = awaiting_tool_result \<and> in_flight r = cs \<longrightarrow>
            transcript (step (ctl\<lparr>completion_time := sched\<rparr>) req r) =
              transcript r @ collect (execute_in order (usable_tools req) cs) cs) \<and>
         (state r = pending \<and> step_count r < max_steps ctl \<and>
          service ctl (instruction req) (transcript r)
            (map (\<lambda>t. (name t, input_schema t)) (usable_tools req)) = Some (tool_calls cs) \<longrightarrow>
            transcript (step (ctl\<lparr>completion_time := sched\<rparr>) req
                          (step (ctl\<lparr>completion_time := sched\<rparr>) req r)) =
              transcript r @ ProposalTurn cs #
                map (\<lambda>c. ToolResultTurn c
                       (dispatch (usable_tools req) (tool_name c) (arguments c))) cs) \<and>
         step (ctl\<lparr>completion_time := sched\<rparr>) req r = step ctl req r \<and>
         run (ctl\<lparr>completion_time := sched\<rparr>) req = run ctl req"
proof -
  note ordered = collect_execute_in [OF assms]
  have awaiting: "state r = awaiting_tool_result \<and> in_flight r = cs \<longrightarrow>
            transcript (step (ctl\<lparr>completion_time := sched\<rparr>) req r) =
              transcript r @ collect (execute_in order (usable_tools req) cs) cs"
    by (simp add: step_sched step_awaiting ordered)
  have round: "state r = pending \<and> step_count r < max_steps ctl \<and>
          service ctl (instruction req) (transcript r)
            (map (\<lambda>t. (name t, input_schema t)) (usable_tools req)) = Some (tool_calls cs) \<longrightarrow>
            transcript (step (ctl\<lparr>completion_time := sched\<rparr>) req
                          (step (ctl\<lparr>completion_time := sched\<rparr>) req r)) =
              transcript r @ ProposalTurn cs #
                map (\<lambda>c. ToolResultTurn c
                       (dispatch (usable_tools req) (tool_name c) (arguments c))) cs"
    by (simp add: step_sched step_round)
  from ordered awaiting round show ?thesis
    by (simp add: resolve_eq step_sched drive_sched run_def)
qed

theorem tool_results_in_proposal_order_witness:
  "map fst (execute_in [1, 0] [duckduckgo_search] ask_both) = [1, 0] \<and>
   completion_order (web_first []) 2 = [1, 0] \<and>
   collect (execute_in [1, 0] [search_knowledge_base, duckduckgo_search] ask_both) ask_both =
     [ToolResultTurn (ask_both ! 0) (ToolResult ''ThaiRecipes.pdf, page 1''),
      ToolResultTurn (ask_both ! 1) (ToolResult ''Curry reached Thailand from India'')] \<and>
   resolve (web_first []) [search_knowledge_base, duckduckgo_search] ask_both =
     collect (execute_in [1, 0] [search_knowledge_base, duckduckgo_search] ask_both) ask_both \<and>
   state initial = pending \<and> step_count initial < max_steps thai_controller \<and>
   service thai_controller (instruction thai_request) (transcript initial)
     (map (\<lambda>t. (name t, input_schema t)) (usable_tools thai_request)) =
     Some (tool_calls ask_both) \<and>
   completion_time thai_controller = web_first \<and>
   transcript (step thai_controller thai_request (step thai_controller thai_request initial)) =
     [ProposalTurn ask_both,
      ToolResultTurn (ask_both ! 0) (ToolError UnknownTool ''search_knowledge_base''),
      ToolResultTurn (ask_both ! 1) (ToolResult ''Curry reached Thailand from India'')] \<and>
   transcript (step (thai_controller\<lparr>completion_time := \<lambda>ts i. i\<rparr>) thai_request
                 (step (thai_controller\<lparr>completion_time := \<lambda>ts i. i\<rparr>) thai_request initial)) =
     [ProposalTurn ask_both,
      ToolResultTurn (ask_both ! 0) (ToolError UnknownTool ''search_knowledge_base''),
      ToolResultTurn (ask_both ! 1) (ToolResult ''Curry reached Thailand from India'')]"
proof -
  have d: "distinct [1, 0 :: nat]" and s: "set [1, 0 :: nat] = {0..<length ask_both}"
    by (auto simp: ask_both_def)
  have arrived: "map fst (execute_in [1, 0] [duckduckgo_search] ask_both) = [1, 0]"
    by (simp add: execute_in_def)
  have order: "completion_order (web_first []) 2 = [1, 0]"
    by code_simp
  have p: "state initial = pending" "step_count initial < max_steps thai_controller"
    "transcript initial = []"
    "service thai_controller (instruction thai_request) (transcript initial)
       (map (\<lambda>t. (name t, input_schema t)) (usable_tools thai_request)) =
       Some (tool_calls ask_both)"
    "completion_time thai_controller = web_first"
    by (simp_all add: initial_def thai_controller_def scripted_def)
  have u: "usable_tools thai_request = [duckduckgo_search]"
    by (simp add: loop_defs)
  have results:
    "map (\<lambda>c. ToolResultTurn c (dispatch [duckduckgo_search] (tool_name c) (arguments c)))
       ask_both =
     [ToolResultTurn (ask_both ! 0) (ToolError UnknownTool ''search_knowledge_base''),
      ToolResultTurn (ask_both ! 1) (ToolResult ''Curry reached Thailand from India'')]"
    by (simp add: dispatch_def satisfies_def ask_both_def duckduckgo_search_def)
  have both:
    "map (\<lambda>c. ToolResultTurn c
            (dispatch [search_knowledge_base, duckduckgo_search] (tool_name c) (arguments c)))
       ask_both =
     [ToolResultTurn (ask_both ! 0) (ToolResult ''ThaiRecipes.pdf, page 1''),
      ToolResultTurn (ask_both ! 1) (ToolResult ''Curry reached Thailand from India'')]"
    by (simp add: dispatch_def satisfies_def ask_both_def search_knowledge_base_def
        duckduckgo_search_def)
  have same: "thai_controller\<lparr>completion_time := web_first\<rparr> = thai_controller"
    by (simp add: thai_controller_def)
  note t = tool_results_in_proposal_order [OF d s, where r = initial and req = thai_request
      and ctl = thai_controller and reg = "[search_knowledge_base, duckduckgo_search]"
      and time = "web_first []"]
  from t [where sched = web_first]
  have ordered:
    "collect (execute_in [1, 0] [search_knowledge_base, duckduckgo_search] ask_both) ask_both =
       map (\<lambda>c. ToolResultTurn c
              (dispatch [search_knowledge_base, duckduckgo_search] (tool_name c) (arguments c)))
         ask_both"
    and resolved:
    "resolve (web_first []) [search_knowledge_base, duckduckgo_search] ask_both =
       collect (execute_in [1, 0] [search_knowledge_base, duckduckgo_search] ask_both) ask_both"
    by blast+
  have round: "transcript (step (thai_controller\<lparr>completion_time := sched\<rparr>) thai_request
                 (step (thai_controller\<lparr>completion_time := sched\<rparr>) thai_request initial)) =
     [ProposalTurn ask_both,
      ToolResultTurn (ask_both ! 0) (ToolError UnknownTool ''search_knowledge_base''),
      ToolResultTurn (ask_both ! 1) (ToolResult ''Curry reached Thailand from India'')]"
    for sched
  proof -
    from t [where sched = sched] p
    have "transcript (step (thai_controller\<lparr>completion_time := sched\<rparr>) thai_request
                 (step (thai_controller\<lparr>completion_time := sched\<rparr>) thai_request initial)) =
          transcript initial @ ProposalTurn ask_both #
            map (\<lambda>c. ToolResultTurn c
                   (dispatch (usable_tools thai_request) (tool_name c) (arguments c))) ask_both"
      by blast
    then show ?thesis by (simp add: p u results)
  qed
  from round [of web_first] round [of "\<lambda>ts i. i"] ordered resolved arrived order p both same
  show ?thesis by simp
qed

end
